theory Spec2Isabelle
  imports Complex_Main
begin

section \<open>Python values used by gps_logger.py\<close>

text \<open>
  The logger stores floats, the integer 0, strings and None in its dictionaries. A Python
  float is an IEEE binary64 value: finite values are modelled by the rational number they
  denote, next to the two infinities and NaN. Negative zero is identified with zero: both
  compare equal to 0, both are falsy, and \<open>int\<close> maps both to 0.
\<close>

datatype pyfloat = Fin rat | PInf | NInf | NaN

datatype exc =
    ValueError | TypeError | AttributeError | OverflowError | KeyError
  | ParseError | ChecksumError | SentenceTypeError

datatype pyval =
    PyNone
  | PyInt int
  | PyFloat pyfloat
  | PyStr string
  | PyDate nat nat nat
  | PyTime nat nat nat

subsection \<open>Rounding to binary64\<close>

fun bit_length :: "nat \<Rightarrow> nat" where
  "bit_length n = (if n = 0 then 0 else Suc (bit_length (n div 2)))"

declare bit_length.simps [simp del]

definition pow2 :: "int \<Rightarrow> rat" where
  "pow2 e = (if 0 \<le> e then 2 ^ nat e else 1 / 2 ^ nat (- e))"

text \<open>\<open>ilog2 x\<close> is the exponent \<open>e\<close> with \<open>2^e \<le> x < 2^(e+1)\<close>, for positive \<open>x\<close>.\<close>

definition ilog2 :: "rat \<Rightarrow> int" where
  "ilog2 x = (if 1 \<le> x then int (bit_length (nat \<lfloor>x\<rfloor>)) - 1
     else (let k = int (bit_length (nat \<lfloor>1 / x\<rfloor>)) - 1
           in if 1 / x = pow2 k then - k else - k - 1))"

definition round_half_even :: "rat \<Rightarrow> int" where
  "round_half_even x = (let f = \<lfloor>x\<rfloor>; d = x - of_int f
     in if d < 1 / 2 then f else if 1 / 2 < d then f + 1
        else if even f then f else f + 1)"

text \<open>
  \<open>rd x\<close> is the binary64 value nearest to the rational \<open>x\<close>, ties to even: a 53-bit
  significand, subnormals below \<open>2^-1022\<close>, and an infinity from \<open>2^1024\<close> on.
\<close>

definition rd :: "rat \<Rightarrow> pyfloat" where
  "rd x = (if x = 0 then Fin 0
     else (let e = ilog2 \<bar>x\<bar>; q = max (e - 52) (- 1074);
               m = round_half_even (x / pow2 q)
           in if 1024 \<le> e \<or> (e = 1023 \<and> \<bar>m\<bar> = 2 ^ 53)
              then (if 0 < x then PInf else NInf)
              else Fin (of_int m * pow2 q)))"

subsection \<open>Float operations\<close>

text \<open>\<open>a * b\<close> on floats.\<close>

fun fl_mul :: "pyfloat \<Rightarrow> pyfloat \<Rightarrow> pyfloat" where
  "fl_mul (Fin a) (Fin b) = rd (a * b)"
| "fl_mul NaN _ = NaN"
| "fl_mul _ NaN = NaN"
| "fl_mul PInf (Fin b) = (if b = 0 then NaN else if 0 < b then PInf else NInf)"
| "fl_mul NInf (Fin b) = (if b = 0 then NaN else if 0 < b then NInf else PInf)"
| "fl_mul (Fin a) PInf = (if a = 0 then NaN else if 0 < a then PInf else NInf)"
| "fl_mul (Fin a) NInf = (if a = 0 then NaN else if 0 < a then NInf else PInf)"
| "fl_mul PInf PInf = PInf"
| "fl_mul PInf NInf = NInf"
| "fl_mul NInf PInf = NInf"
| "fl_mul NInf NInf = PInf"

text \<open>
  \<open>round(x, 1)\<close>: the decimal with one digit after the point nearest to the exact value
  of \<open>x\<close> (ties to even), converted back to a float; infinities and NaN round to
  themselves.
\<close>

fun py_round1 :: "pyfloat \<Rightarrow> pyfloat" where
  "py_round1 (Fin r) = rd (of_int (round_half_even (r * 10)) / 10)"
| "py_round1 x = x"

text \<open>\<open>x > 0\<close> and \<open>x == 0\<close> on floats; every comparison with NaN is false.\<close>

fun fl_gt0 :: "pyfloat \<Rightarrow> bool" where
  "fl_gt0 (Fin r) = (0 < r)"
| "fl_gt0 PInf = True"
| "fl_gt0 NInf = False"
| "fl_gt0 NaN = False"

fun fl_eq0 :: "pyfloat \<Rightarrow> bool" where
  "fl_eq0 (Fin r) = (r = 0)"
| "fl_eq0 _ = False"

text \<open>Truth value of a float: everything but zero is true, NaN included.\<close>

fun fl_truthy :: "pyfloat \<Rightarrow> bool" where
  "fl_truthy (Fin r) = (r \<noteq> 0)"
| "fl_truthy _ = True"

text \<open>Truncation toward zero, as \<open>int(x)\<close> does on a finite float.\<close>

definition trunc0 :: "rat \<Rightarrow> int" where
  "trunc0 r = (if 0 \<le> r then \<lfloor>r\<rfloor> else \<lceil>r\<rceil>)"

fun fl_to_int :: "pyfloat \<Rightarrow> exc + int" where
  "fl_to_int (Fin r) = Inr (trunc0 r)"
| "fl_to_int NaN = Inl ValueError"
| "fl_to_int _ = Inl OverflowError"

subsection \<open>Strings\<close>

text \<open>
  A line read from the serial port is a list of bytes. \<open>decode('ascii', errors='ignore')\<close>
  drops every byte from 128 on; \<open>strip()\<close> removes the whitespace at both ends, which
  for ASCII is the characters 9 to 13 and 28 to 32.
\<close>

definition decode_ascii_ignore :: "string \<Rightarrow> string" where
  "decode_ascii_ignore bs = filter (\<lambda>c. (of_char c :: nat) < 128) bs"

definition is_space :: "char \<Rightarrow> bool" where
  "is_space c = (let n = (of_char c :: nat) in (9 \<le> n \<and> n \<le> 13) \<or> (28 \<le> n \<and> n \<le> 32))"

definition strip :: "string \<Rightarrow> string" where
  "strip s = rev (dropWhile is_space (rev (dropWhile is_space s)))"

fun startswith :: "string \<Rightarrow> string \<Rightarrow> bool" where
  "startswith s [] = True"
| "startswith [] (p # ps) = False"
| "startswith (c # cs) (p # ps) = (c = p \<and> startswith cs ps)"

text \<open>\<open>sub in s\<close>.\<close>

fun contains :: "string \<Rightarrow> string \<Rightarrow> bool" where
  "contains [] sub = (sub = [])"
| "contains (c # cs) sub = (startswith (c # cs) sub \<or> contains cs sub)"

text \<open>\<open>s.split(sep)\<close> for a one-character separator: never an empty list.\<close>

fun split_on :: "char \<Rightarrow> string \<Rightarrow> string list" where
  "split_on sep [] = [[]]"
| "split_on sep (c # cs) =
     (if c = sep then [] # split_on sep cs
      else (case split_on sep cs of
              [] \<Rightarrow> [[c]]
            | p # ps \<Rightarrow> (c # p) # ps))"

definition is_digit :: "char \<Rightarrow> bool" where
  "is_digit c = (let n = (of_char c :: nat) in 48 \<le> n \<and> n \<le> 57)"

definition digit_val :: "char \<Rightarrow> nat" where
  "digit_val c = of_char c - 48"

definition lower :: "char \<Rightarrow> char" where
  "lower c = (let n = (of_char c :: nat) in if 65 \<le> n \<and> n \<le> 90 then char_of (n + 32) else c)"

text \<open>
  The grammar of numeric strings: a digit part is a digit followed by digits, each
  optionally preceded by one underscore. \<open>scan_digits\<close> reads what follows the first
  digit; its flag says that an underscore is waiting for its digit.
\<close>

fun scan_digits :: "bool \<Rightarrow> string \<Rightarrow> string \<times> string" where
  "scan_digits b [] = ([], if b then ''_'' else [])"
| "scan_digits b (c # cs) =
     (if is_digit c then (case scan_digits False cs of (ds, r) \<Rightarrow> (c # ds, r))
      else if c = CHR ''_'' \<and> \<not> b then scan_digits True cs
      else ([], if b then CHR ''_'' # c # cs else c # cs))"

definition digitpart :: "string \<Rightarrow> string \<times> string" where
  "digitpart s = (case s of
       [] \<Rightarrow> ([], [])
     | c # cs \<Rightarrow> if is_digit c then (case scan_digits False cs of (ds, r) \<Rightarrow> (c # ds, r))
                else ([], s))"

definition digits_value :: "string \<Rightarrow> nat" where
  "digits_value ds = foldl (\<lambda>a d. 10 * a + digit_val d) 0 ds"

text \<open>An optional sign: whether it is a minus, and the rest.\<close>

definition take_sign :: "string \<Rightarrow> bool \<times> string" where
  "take_sign s = (case s of
       [] \<Rightarrow> (False, [])
     | c # cs \<Rightarrow> if c = CHR ''-'' then (True, cs)
                else if c = CHR ''+'' then (False, cs) else (False, s))"

text \<open>
  The exponent part of a float literal: nothing, or \<open>e\<close>/\<open>E\<close>, an optional sign and a
  digit part that ends the string.
\<close>

definition parse_exponent :: "string \<Rightarrow> int option" where
  "parse_exponent s = (case s of
       [] \<Rightarrow> Some 0
     | c # cs \<Rightarrow>
         if c = CHR ''e'' \<or> c = CHR ''E'' then
           (case take_sign cs of (neg, r) \<Rightarrow>
              (case digitpart r of (ds, r') \<Rightarrow>
                 if ds \<noteq> [] \<and> r' = [] then
                   Some (if neg then - int (digits_value ds) else int (digits_value ds))
                 else None))
         else None)"

text \<open>
  \<open>[digitpart] "." digitpart | digitpart ["."]\<close>, then the exponent: the exact decimal
  value of an unsigned float literal.
\<close>

definition parse_number :: "string \<Rightarrow> rat option" where
  "parse_number s =
     (case digitpart s of (ip, r1) \<Rightarrow>
        (case (if startswith r1 ''.'' then digitpart (tl r1) else ([], r1)) of (fp, r2) \<Rightarrow>
           if ip = [] \<and> fp = [] then None
           else (case parse_exponent r2 of
                   None \<Rightarrow> None
                 | Some e \<Rightarrow>
                     Some ((of_nat (digits_value ip) + of_nat (digits_value fp) / 10 ^ length fp)
                           * (if 0 \<le> e then 10 ^ nat e else 1 / 10 ^ nat (- e))))))"

text \<open>
  \<open>float\<close> and \<open>int\<close> skip leading and trailing whitespace of their own: on an
  ASCII string only the characters 9 to 13 and the space, not the separators 28 to 31
  that \<open>str.strip\<close> removes as well.
\<close>

definition is_numeric_space :: "char \<Rightarrow> bool" where
  "is_numeric_space c = (let n = (of_char c :: nat) in (9 \<le> n \<and> n \<le> 13) \<or> n = 32)"

definition numeric_strip :: "string \<Rightarrow> string" where
  "numeric_strip s = rev (dropWhile is_numeric_space (rev (dropWhile is_numeric_space s)))"

text \<open>\<open>float(s)\<close> for a string \<open>s\<close>.\<close>

definition py_float_of_str :: "string \<Rightarrow> exc + pyfloat" where
  "py_float_of_str s =
     (case take_sign (numeric_strip s) of (neg, r) \<Rightarrow>
        if map lower r = ''inf'' \<or> map lower r = ''infinity'' then Inr (if neg then NInf else PInf)
        else if map lower r = ''nan'' then Inr NaN
        else (case parse_number r of
                None \<Rightarrow> Inl ValueError
              | Some v \<Rightarrow> Inr (rd (if neg then - v else v))))"

text \<open>
  \<open>int(s)\<close> for a string \<open>s\<close>, base ten. CPython 3.11 refuses a string of more than
  4300 digits (\<open>sys.int_info.default_max_str_digits\<close>), underscores not counted.
\<close>

definition py_int_of_str :: "string \<Rightarrow> exc + int" where
  "py_int_of_str s =
     (case take_sign (numeric_strip s) of (neg, r) \<Rightarrow>
        (case digitpart r of (ds, r') \<Rightarrow>
           if ds \<noteq> [] \<and> r' = [] \<and> length ds \<le> 4300 then
             Inr (if neg then - int (digits_value ds) else int (digits_value ds))
           else Inl ValueError))"

subsection \<open>Conversions and truth values of Python objects\<close>

fun truthy :: "pyval \<Rightarrow> bool" where
  "truthy PyNone = False"
| "truthy (PyInt i) = (i \<noteq> 0)"
| "truthy (PyFloat f) = fl_truthy f"
| "truthy (PyStr s) = (s \<noteq> [])"
| "truthy (PyDate y m d) = True"
| "truthy (PyTime h m s) = True"

text \<open>\<open>float(v)\<close>: an integer too large for a float raises OverflowError.\<close>

fun py_float :: "pyval \<Rightarrow> exc + pyfloat" where
  "py_float (PyFloat f) = Inr f"
| "py_float (PyInt i) =
     (case rd (of_int i) of Fin r \<Rightarrow> Inr (Fin r) | _ \<Rightarrow> Inl OverflowError)"
| "py_float (PyStr s) = py_float_of_str s"
| "py_float _ = Inl TypeError"

fun py_int :: "pyval \<Rightarrow> exc + int" where
  "py_int (PyInt i) = Inr i"
| "py_int (PyFloat f) = fl_to_int f"
| "py_int (PyStr s) = py_int_of_str s"
| "py_int _ = Inl TypeError"

text \<open>
  \<open>PyDate y m d\<close> and \<open>PyTime h m s\<close> stand for a \<open>datetime.date\<close> and a
  \<open>datetime.time\<close>: a year from 1 to 9999, a month, a day, and an hour, a minute and a
  second in their ranges. \<open>strftime\<close> prints month, day, hour, minute and second with
  two digits, and on Linux the year as it is, without padding.
\<close>

fun pad_digits :: "nat \<Rightarrow> nat \<Rightarrow> string" where
  "pad_digits 0 n = []"
| "pad_digits (Suc w) n = pad_digits w (n div 10) @ [char_of (48 + n mod 10)]"

fun decimal :: "nat \<Rightarrow> string" where
  "decimal n = (if n < 10 then [char_of (48 + n)]
     else decimal (n div 10) @ [char_of (48 + n mod 10)])"

declare decimal.simps [simp del]

text \<open>
  \<open>v.strftime('%Y-%m-%d')\<close> and \<open>v.strftime('%H:%M:%S')\<close>. Only dates and times have the
  method; a time formats its date as 1900-01-01 and a date its time as 00:00:00.
\<close>

fun strftime_ymd :: "pyval \<Rightarrow> exc + string" where
  "strftime_ymd (PyDate y m d) = Inr (decimal y @ ''-'' @ pad_digits 2 m @ ''-'' @ pad_digits 2 d)"
| "strftime_ymd (PyTime h m s) = Inr ''1900-01-01''"
| "strftime_ymd _ = Inl AttributeError"

fun strftime_hms :: "pyval \<Rightarrow> exc + string" where
  "strftime_hms (PyTime h m s) = Inr (pad_digits 2 h @ '':'' @ pad_digits 2 m @ '':'' @ pad_digits 2 s)"
| "strftime_hms (PyDate y m d) = Inr ''00:00:00''"
| "strftime_hms _ = Inl AttributeError"

section \<open>The sentences pynmea2 hands to the logger\<close>

text \<open>
  \<open>pynmea2.parse\<close> belongs to a library outside the repository, so it is a parameter of
  the model: a function from the line to the message object, or to the exception it
  raises. The logger reads these attributes of a message:
  \<^item> of an RMC sentence \<open>status\<close>, \<open>true_course\<close>, \<open>spd_over_grnd\<close>, \<open>datestamp\<close> and
    \<open>timestamp\<close>, each the object pynmea2 made of the field (None for an empty typed
    field, the converted value, or the raw string when the conversion failed), and the
    properties \<open>latitude\<close> and \<open>longitude\<close>, which compute a float (0.0 for an empty
    field) or raise;
  \<^item> of a GGA sentence \<open>altitude\<close> and \<open>num_sats\<close>.
\<close>

record rmc =
  msg_status :: pyval
  msg_latitude :: "exc + pyfloat"
  msg_longitude :: "exc + pyfloat"
  msg_true_course :: pyval
  msg_spd_over_grnd :: pyval
  msg_datestamp :: pyval
  msg_timestamp :: pyval

record gga =
  msg_altitude :: pyval
  msg_num_sats :: pyval

datatype nmea_msg = RMC rmc | GGA gga | OtherSentence

type_synonym parser = "string \<Rightarrow> exc + nmea_msg"

section \<open>parse\_gps\<close>

record gps_data =
  timestamp :: string
  posTime :: "string option"
  lat :: "pyfloat option"
  lon :: "pyfloat option"
  alt :: "pyfloat option"
  course :: pyval
  speed_m_s :: pyfloat
  pdop :: "pyfloat option"
  fix_type :: string
  valid :: bool
  sats :: "int option"

text \<open>The dictionary \<open>parse_gps\<close> starts from; \<open>now\<close> is the capture time it reads.\<close>

definition initial_gps_data :: "string \<Rightarrow> gps_data" where
  "initial_gps_data now =
     \<lparr> timestamp = now, posTime = None, lat = None, lon = None, alt = None,
       course = PyInt 0, speed_m_s = Fin 0, pdop = None, fix_type = ''Invalid'',
       valid = False, sats = None \<rparr>"

text \<open>
  A block of statements inside the \<open>try\<close> ends with the dictionary as it has been
  mutated so far, and with the exception when one was raised.
\<close>

type_synonym outcome = "exc option \<times> gps_data"

definition and_then :: "outcome \<Rightarrow> (gps_data \<Rightarrow> outcome) \<Rightarrow> outcome" where
  "and_then r f = (case r of (Some e, g) \<Rightarrow> (Some e, g) | (None, g) \<Rightarrow> f g)"

text \<open>The factor of line 75, the float literal \<open>0.514444\<close>.\<close>

definition KNOTS_TO_M_S :: pyfloat where
  "KNOTS_TO_M_S = rd (514444 / 1000000)"

text \<open>Lines 55 to 63.\<close>

definition gsa_block :: "string \<Rightarrow> gps_data \<Rightarrow> outcome" where
  "gsa_block line g =
     (if contains line ''GSA'' then
        (let parts = split_on CHR '','' line in
         if 16 \<le> length parts then
           (case (if parts ! 15 \<noteq> [] then map_sum id Some (py_float_of_str (parts ! 15))
                  else Inr None) of
              Inl e \<Rightarrow> (Some e, g)
            | Inr p \<Rightarrow>
                (let g1 = g\<lparr>pdop := p\<rparr>; fix = parts ! 2 in
                 if fix = ''2'' then (None, g1\<lparr>fix_type := ''2D''\<rparr>)
                 else if fix = ''3'' then (None, g1\<lparr>fix_type := ''3D''\<rparr>)
                 else (None, g1)))
         else (None, g))
      else (None, g))"

text \<open>Lines 68 and 69.\<close>

definition rmc_valid :: "rmc \<Rightarrow> gps_data \<Rightarrow> outcome" where
  "rmc_valid m g = (None, if msg_status m = PyStr ''A'' then g\<lparr>valid := True\<rparr> else g)"

text \<open>Lines 70 to 72: \<open>and\<close> does not read the longitude when the latitude is falsy.\<close>

definition rmc_position :: "rmc \<Rightarrow> gps_data \<Rightarrow> outcome" where
  "rmc_position m g =
     (case msg_latitude m of
        Inl e \<Rightarrow> (Some e, g)
      | Inr la \<Rightarrow>
          if fl_truthy la then
            (case msg_longitude m of
               Inl e \<Rightarrow> (Some e, g)
             | Inr lo \<Rightarrow>
                 if fl_truthy lo then (None, g\<lparr>lat := Some la, lon := Some lo\<rparr>)
                 else (None, g))
          else (None, g))"

text \<open>Line 73.\<close>

definition rmc_course :: "rmc \<Rightarrow> gps_data \<Rightarrow> outcome" where
  "rmc_course m g =
     (if truthy (msg_true_course m) then
        (case py_float (msg_true_course m) of
           Inl e \<Rightarrow> (Some e, g)
         | Inr c \<Rightarrow> (None, g\<lparr>course := PyFloat (py_round1 c)\<rparr>))
      else (None, g\<lparr>course := PyInt 0\<rparr>))"

text \<open>Lines 74 and 75.\<close>

definition rmc_speed :: "rmc \<Rightarrow> gps_data \<Rightarrow> outcome" where
  "rmc_speed m g =
     (case (if truthy (msg_spd_over_grnd m) then py_float (msg_spd_over_grnd m)
            else Inr (Fin 0)) of
        Inl e \<Rightarrow> (Some e, g)
      | Inr knots \<Rightarrow> (None, g\<lparr>speed_m_s := py_round1 (fl_mul knots KNOTS_TO_M_S)\<rparr>))"

text \<open>Line 76.\<close>

definition rmc_posTime :: "rmc \<Rightarrow> gps_data \<Rightarrow> outcome" where
  "rmc_posTime m g =
     (case strftime_ymd (msg_datestamp m) of
        Inl e \<Rightarrow> (Some e, g)
      | Inr d \<Rightarrow>
          (case strftime_hms (msg_timestamp m) of
             Inl e \<Rightarrow> (Some e, g)
           | Inr t \<Rightarrow> (None, g\<lparr>posTime := Some (d @ ''T'' @ t @ ''Z'')\<rparr>)))"

definition handle_rmc :: "rmc \<Rightarrow> gps_data \<Rightarrow> outcome" where
  "handle_rmc m g =
     and_then (and_then (and_then (and_then (rmc_valid m g) (rmc_position m))
       (rmc_course m)) (rmc_speed m)) (rmc_posTime m)"

text \<open>Lines 79 and 80.\<close>

definition gga_alt :: "gga \<Rightarrow> gps_data \<Rightarrow> outcome" where
  "gga_alt m g =
     (case (if truthy (msg_altitude m) then py_float (msg_altitude m) else Inr (Fin 0)) of
        Inl e \<Rightarrow> (Some e, g)
      | Inr a \<Rightarrow> (None, g\<lparr>alt := Some a\<rparr>))"

definition gga_sats :: "gga \<Rightarrow> gps_data \<Rightarrow> outcome" where
  "gga_sats m g =
     (case (if truthy (msg_num_sats m) then map_sum id Some (py_int (msg_num_sats m))
            else Inr None) of
        Inl e \<Rightarrow> (Some e, g)
      | Inr n \<Rightarrow> (None, g\<lparr>sats := n\<rparr>))"

definition handle_gga :: "gga \<Rightarrow> gps_data \<Rightarrow> outcome" where
  "handle_gga m g = and_then (gga_alt m g) (gga_sats m)"

text \<open>Lines 67 to 80: the dispatch on the class of the message.\<close>

definition handle_msg :: "nmea_msg \<Rightarrow> gps_data \<Rightarrow> outcome" where
  "handle_msg msg g =
     (case msg of
        RMC m \<Rightarrow> handle_rmc m g
      | GGA m \<Rightarrow> handle_gga m g
      | OtherSentence \<Rightarrow> (None, g))"

text \<open>Lines 65 to 80: the parse, which may raise, and the dispatch.\<close>

definition dispatch :: "parser \<Rightarrow> string \<Rightarrow> gps_data \<Rightarrow> outcome" where
  "dispatch parse line g =
     (case parse line of
        Inl e \<Rightarrow> (Some e, g)
      | Inr msg \<Rightarrow> handle_msg msg g)"

text \<open>
  The body of the \<open>try\<close>, lines 51 to 80, on the bytes \<open>readline\<close> returned. A line
  without the leading \<open>$\<close> goes to the next iteration at once.
\<close>

definition read_line :: "string \<Rightarrow> string" where
  "read_line raw = strip (decode_ascii_ignore raw)"

definition try_body :: "parser \<Rightarrow> gps_data \<Rightarrow> string \<Rightarrow> outcome" where
  "try_body parse g raw =
     (let line = read_line raw in
      if \<not> startswith line ''$'' then (None, g)
      else and_then (gsa_block line g) (dispatch parse line))"

text \<open>
  One iteration of the \<open>while\<close> loop: \<open>except Exception: continue\<close> drops the exception
  and keeps the dictionary as the body left it.
\<close>

definition loop_iteration :: "parser \<Rightarrow> gps_data \<Rightarrow> string \<Rightarrow> gps_data" where
  "loop_iteration parse g raw = snd (try_body parse g raw)"

text \<open>
  \<open>parse_gps\<close>: the loop runs while fewer than five seconds have passed, so a call is
  determined by the capture time and by the lines \<open>readline\<close> returned in that window,
  in order.
\<close>

definition parse_gps :: "string \<Rightarrow> parser \<Rightarrow> string list \<Rightarrow> gps_data" where
  "parse_gps now parse raws = foldl (loop_iteration parse) (initial_gps_data now) raws"

text \<open>
  The message a line is dispatched on, when the iteration gets that far: the line starts
  with \<open>$\<close>, lines 55 to 63 raise nothing and pynmea2 parses it.
\<close>

definition decoded :: "parser \<Rightarrow> string \<Rightarrow> nmea_msg option" where
  "decoded parse raw =
     (let line = read_line raw in
      if \<not> startswith line ''$'' then None
      else (case fst (gsa_block line (initial_gps_data [])) of
              Some e \<Rightarrow> None
            | None \<Rightarrow> (case parse line of Inl e \<Rightarrow> None | Inr m \<Rightarrow> Some m)))"

section \<open>create\_aff\_feature and the main loop\<close>

definition EVENT_CODES :: "(string \<times> int) list" where
  "EVENT_CODES =
     [(''Position Report'', 0), (''POWER ON'', 1), (''POWER OFF'', 2),
      (''MOVING'', 3), (''STOPPED'', 4)]"

record feature =
  f_type :: string
  rpt :: string
  esn :: string
  unitId :: string
  cog :: int
  spd :: int
  src :: string
  p_fix :: string
  p_pdop :: "pyfloat option"
  p_posTime :: "string option"
  dataCtrTime :: string
  ctrId :: string
  event_code :: int
  event_type :: string
  extra_data :: string
  geometry_type :: string
  coordinates :: "pyfloat option list"

definition create_aff_feature ::
    "gps_data \<Rightarrow> string \<Rightarrow> int \<Rightarrow> string \<Rightarrow> string \<Rightarrow> exc + feature" where
  "create_aff_feature gps imei code etype extra =
     (case py_int (course gps) of
        Inl e \<Rightarrow> Inl e
      | Inr c \<Rightarrow>
          (case fl_to_int (speed_m_s gps) of
             Inl e \<Rightarrow> Inl e
           | Inr s \<Rightarrow>
               Inr \<lparr> f_type = ''Feature'', rpt = ''pos'', esn = imei, unitId = ''SKYTRAC_UNIT'',
                     cog = c, spd = s, src = ''GPS'', p_fix = fix_type gps, p_pdop = pdop gps,
                     p_posTime = posTime gps, dataCtrTime = timestamp gps,
                     ctrId = ''skytrac-pi'', event_code = code, event_type = etype,
                     extra_data = extra, geometry_type = ''Point'',
                     coordinates = [lon gps, lat gps, alt gps] \<rparr>))"

text \<open>The variables of the main loop, and the features collected so far.\<close>

record loop_state =
  prev_speed :: pyfloat
  power_on_logged :: bool
  in_motion :: bool
  features :: "feature list"

definition initial_loop_state :: loop_state where
  "initial_loop_state =
     \<lparr> prev_speed = Fin 0, power_on_logged = False, in_motion = False, features = [] \<rparr>"

text \<open>Lines 141 to 153: the event type and the flags after it.\<close>

definition classify_event :: "loop_state \<Rightarrow> gps_data \<Rightarrow> string \<times> loop_state" where
  "classify_event st gps =
     (if \<not> power_on_logged st then
        (''POWER ON'', st\<lparr>power_on_logged := True, in_motion := fl_gt0 (speed_m_s gps)\<rparr>)
      else if \<not> in_motion st \<and> fl_gt0 (speed_m_s gps) then
        (''MOVING'', st\<lparr>in_motion := True\<rparr>)
      else if in_motion st \<and> fl_eq0 (speed_m_s gps) then
        (''STOPPED'', st\<lparr>in_motion := False\<rparr>)
      else (''Position Report'', st))"

text \<open>Truth value of a coordinate of the dictionary: None and 0.0 are falsy.\<close>

fun opt_truthy :: "pyfloat option \<Rightarrow> bool" where
  "opt_truthy None = False"
| "opt_truthy (Some f) = fl_truthy f"

text \<open>
  Lines 140 to 155, the event state machine: on a valid fix with both coordinates the
  event type, its code and the new flags; otherwise nothing, and the flags as they were.
\<close>

definition event_state_machine ::
    "loop_state \<Rightarrow> gps_data \<Rightarrow> exc + ((string \<times> int) option \<times> loop_state)" where
  "event_state_machine st gps =
     (if valid gps \<and> opt_truthy (lat gps) \<and> opt_truthy (lon gps) then
        (case classify_event st gps of (etype, st1) \<Rightarrow>
           (case map_of EVENT_CODES etype of
              None \<Rightarrow> Inl KeyError
            | Some code \<Rightarrow> Inr (Some (etype, code), st1)))
      else Inr (None, st))"

datatype cycle_output = Logged feature | NoFix

text \<open>
  Lines 140 to 165, one turn of the main loop on the dictionary \<open>parse_gps\<close> returned:
  the feature is built, appended and logged, or "No fix" is printed. An exception here
  is not caught: it ends the program.
\<close>

definition main_loop_body ::
    "string \<Rightarrow> loop_state \<Rightarrow> gps_data \<Rightarrow> exc + (cycle_output \<times> loop_state)" where
  "main_loop_body imei st gps =
     (case event_state_machine st gps of
        Inl e \<Rightarrow> Inl e
      | Inr (None, st1) \<Rightarrow> Inr (NoFix, st1)
      | Inr (Some (etype, code), st1) \<Rightarrow>
          (case create_aff_feature gps imei code etype [] of
             Inl e \<Rightarrow> Inl e
           | Inr f \<Rightarrow>
               Inr (Logged f,
                    st1\<lparr>features := features st1 @ [f], prev_speed := speed_m_s gps\<rparr>)))"

text \<open>The main loop on the dictionaries of successive windows, until an exception.\<close>

fun main_loop ::
    "string \<Rightarrow> loop_state \<Rightarrow> gps_data list \<Rightarrow> exc + (cycle_output list \<times> loop_state)" where
  "main_loop imei st [] = Inr ([], st)"
| "main_loop imei st (gps # rest) =
     (case main_loop_body imei st gps of
        Inl e \<Rightarrow> Inl e
      | Inr (out, st1) \<Rightarrow>
          (case main_loop imei st1 rest of
             Inl e \<Rightarrow> Inl e
           | Inr (outs, st2) \<Rightarrow> Inr (out # outs, st2)))"

text \<open>The event type and code a turn logged, if any.\<close>

fun emitted :: "cycle_output \<Rightarrow> (string \<times> int) option" where
  "emitted (Logged f) = Some (event_type f, event_code f)"
| "emitted NoFix = None"

section \<open>Example sentences\<close>

text \<open>
  Lines as a receiver sends them, with checksum, carriage return and line feed, and the
  message pynmea2 makes of each. The position 4807.500,N 01130.000,E is 48.125 and 11.5
  degrees; 0000.000,N is the equator, latitude 0.0.
\<close>

definition crlf :: string where
  "crlf = [CHR 0x0D, CHR 0x0A]"

definition RMC_A_LINE :: string where
  "RMC_A_LINE = ''$GPRMC,123519,A,4807.500,N,01130.000,E,010.0,084.4,230394,003.1,W*60''"

text \<open>The float of the course field, \<open>084.4\<close>.\<close>

definition float_84_4 :: pyfloat where
  "float_84_4 = rd (844 / 10)"

definition rmc_a :: rmc where
  "rmc_a = \<lparr> msg_status = PyStr ''A'', msg_latitude = Inr (Fin (385 / 8)),
       msg_longitude = Inr (Fin (23 / 2)), msg_true_course = PyFloat float_84_4,
       msg_spd_over_grnd = PyFloat (Fin 10), msg_datestamp = PyDate 1994 3 23,
       msg_timestamp = PyTime 12 35 19 \<rparr>"

definition RMC_F_LINE :: string where
  "RMC_F_LINE = ''$GPRMC,123520,F,4807.500,N,01130.000,E,010.0,084.4,230394,003.1,W*6D''"

definition rmc_f :: rmc where
  "rmc_f = rmc_a\<lparr>msg_status := PyStr ''F'', msg_timestamp := PyTime 12 35 20\<rparr>"

definition RMC_EQUATOR_LINE :: string where
  "RMC_EQUATOR_LINE = ''$GPRMC,123519,A,0000.000,N,00630.000,E,010.0,084.4,230394,003.1,W*68''"

definition rmc_equator :: rmc where
  "rmc_equator = rmc_a\<lparr>msg_latitude := Inr (Fin 0), msg_longitude := Inr (Fin (13 / 2))\<rparr>"

definition RMC_EMPTY_LINE :: string where
  "RMC_EMPTY_LINE = ''$GPRMC,123519,A,4807.500,N,01130.000,E,,,230394,,*12''"

definition rmc_empty :: rmc where
  "rmc_empty = rmc_a\<lparr>msg_true_course := PyNone, msg_spd_over_grnd := PyNone\<rparr>"

definition RMC_BAD_COURSE_LINE :: string where
  "RMC_BAD_COURSE_LINE = ''$GPRMC,123519,A,4807.500,N,01130.000,E,010.0,abc,230394,003.1,W*26''"

definition rmc_bad_course :: rmc where
  "rmc_bad_course = rmc_a\<lparr>msg_true_course := PyStr ''abc''\<rparr>"

definition GGA_NO_ALT_LINE :: string where
  "GGA_NO_ALT_LINE = ''$GPGGA,123519,4807.500,N,01130.000,E,1,08,0.9,,M,46.9,M,,*66''"

definition gga_no_alt :: gga where
  "gga_no_alt = \<lparr> msg_altitude = PyNone, msg_num_sats = PyStr ''08'' \<rparr>"

definition GSA_3D_LINE :: string where
  "GSA_3D_LINE = ''$GPGSA,A,3,04,05,,09,12,,,24,,,,,2.5,1.3,2.1*39''"

definition GSA_NO_FIX_LINE :: string where
  "GSA_NO_FIX_LINE = ''$GPGSA,A,1,,,,,,,,,,,,,,,*1E''"

text \<open>A dilution sentence cut off after its sixteenth field, and one cut off earlier.\<close>

definition GSA_CUT_LINE :: string where
  "GSA_CUT_LINE = ''$GPGSA,A,3,04,05,,09,12,,,24,,,,,2.5*38''"

definition GSA_SHORT_LINE :: string where
  "GSA_SHORT_LINE = ''$GPGSA,A,3,04,05''"

text \<open>The first sentence again with a checksum that does not match.\<close>

definition RMC_BAD_CHECKSUM_LINE :: string where
  "RMC_BAD_CHECKSUM_LINE = ''$GPRMC,123519,A,4807.500,N,01130.000,E,010.0,084.4,230394,003.1,W*61''"

text \<open>
  What \<open>pynmea2.parse\<close> returns on the lines above: the dilution sentences are messages
  of a class the logger does not dispatch on, and the wrong checksum raises ChecksumError.
  Other lines are not used in the examples.
\<close>

definition example_parse :: parser where
  "example_parse line =
     (if line = RMC_A_LINE then Inr (RMC rmc_a)
      else if line = RMC_F_LINE then Inr (RMC rmc_f)
      else if line = RMC_EQUATOR_LINE then Inr (RMC rmc_equator)
      else if line = RMC_EMPTY_LINE then Inr (RMC rmc_empty)
      else if line = RMC_BAD_COURSE_LINE then Inr (RMC rmc_bad_course)
      else if line = GGA_NO_ALT_LINE then Inr (GGA gga_no_alt)
      else if line = GSA_3D_LINE \<or> line = GSA_NO_FIX_LINE \<or> line = GSA_CUT_LINE
        \<or> line = GSA_SHORT_LINE then Inr OtherSentence
      else if line = RMC_BAD_CHECKSUM_LINE then Inl ChecksumError
      else Inl ParseError)"

text \<open>A valid fix at 48.125, 11.5 with a given speed, and the capture time of the examples.\<close>

definition example_now :: string where
  "example_now = ''1994-03-23T12:35:17.250000Z''"

definition fix_at_speed :: "pyfloat \<Rightarrow> gps_data" where
  "fix_at_speed v = (initial_gps_data example_now)
     \<lparr>lat := Some (Fin (385 / 8)), lon := Some (Fin (23 / 2)), speed_m_s := v, valid := True\<rparr>"

section \<open>Properties of the decoder\<close>

subsection \<open>Sequencing\<close>


lemma and_then_None: "fst r = None \<Longrightarrow> and_then r f = f (snd r)"
  by (cases r) (simp add: and_then_def)

lemma and_then_Some: "fst r = Some e \<Longrightarrow> and_then r f = r"
  by (cases r) (simp add: and_then_def)

lemma and_then_keeps:
  assumes "\<And>g. sel (snd (f g)) = sel g"
  shows "sel (snd (and_then r f)) = sel (snd r)"
proof (cases "fst r")
  case None
  then show ?thesis by (simp add: and_then_None assms)
next
  case (Some e)
  then show ?thesis by (simp add: and_then_Some)
qed

subsection \<open>Lines 55 to 63\<close>

lemma gsa_block_skip:
  "\<not> (contains line ''GSA'' \<and> 16 \<le> length (split_on CHR '','' line)) \<Longrightarrow>
     gsa_block line g = (None, g)"
  by (auto simp: gsa_block_def Let_def)

lemma gsa_block_raises:
  assumes "contains line ''GSA''" "16 \<le> length (split_on CHR '','' line)"
    "split_on CHR '','' line ! 15 \<noteq> []"
    "py_float_of_str (split_on CHR '','' line ! 15) = Inl e"
  shows "gsa_block line g = (Some e, g)"
  using assms by (simp add: gsa_block_def Let_def)

lemma gsa_block_updates:
  assumes "contains line ''GSA''" "16 \<le> length (split_on CHR '','' line)"
    "split_on CHR '','' line ! 15 = [] \<and> p = None \<or>
     split_on CHR '','' line ! 15 \<noteq> [] \<and> py_float_of_str (split_on CHR '','' line ! 15) = Inr v \<and> p = Some v"
  shows "gsa_block line g =
    (None, g\<lparr>pdop := p,
       fix_type := (if split_on CHR '','' line ! 2 = ''2'' then ''2D''
                    else if split_on CHR '','' line ! 2 = ''3'' then ''3D'' else fix_type g)\<rparr>)"
  using assms by (auto simp: gsa_block_def Let_def)

lemma gsa_block_cases:
  obtains (skip) "gsa_block line g = (None, g)"
  | (raises) e where "gsa_block line g = (Some e, g)"
  | (updates) p t where "gsa_block line g = (None, g\<lparr>pdop := p, fix_type := t\<rparr>)"
proof (cases "contains line ''GSA'' \<and> 16 \<le> length (split_on CHR '','' line)")
  case False
  then show ?thesis using gsa_block_skip skip by blast
next
  case True
  show ?thesis
  proof (cases "split_on CHR '','' line ! 15 = []")
    case True
    with \<open>contains line ''GSA'' \<and> 16 \<le> length (split_on CHR '','' line)\<close>
    show ?thesis using gsa_block_updates[of line None] updates by blast
  next
    case False
    show ?thesis
    proof (cases "py_float_of_str (split_on CHR '','' line ! 15)")
      case (Inl e)
      with False True show ?thesis using gsa_block_raises raises by blast
    next
      case (Inr v)
      with False True show ?thesis using gsa_block_updates[of line "Some v" v] updates by blast
    qed
  qed
qed

lemma gsa_block_exc_indep: "fst (gsa_block line g) = fst (gsa_block line g')"
  by (simp add: gsa_block_def Let_def split: sum.splits)

lemma gsa_block_raise: "fst (gsa_block line g) = Some e \<Longrightarrow> snd (gsa_block line g) = g"
  by (cases rule: gsa_block_cases[of line g]) simp_all

lemma gsa_block_keeps:
  "valid (snd (gsa_block line g)) = valid g"
  "lat (snd (gsa_block line g)) = lat g"
  "lon (snd (gsa_block line g)) = lon g"
  "alt (snd (gsa_block line g)) = alt g"
  "course (snd (gsa_block line g)) = course g"
  "speed_m_s (snd (gsa_block line g)) = speed_m_s g"
  "posTime (snd (gsa_block line g)) = posTime g"
  "sats (snd (gsa_block line g)) = sats g"
  "timestamp (snd (gsa_block line g)) = timestamp g"
  by (cases rule: gsa_block_cases[of line g]; simp)+

subsection \<open>The statements of the two handlers\<close>

lemmas stage_defs = rmc_valid_def rmc_position_def rmc_course_def rmc_speed_def
  rmc_posTime_def gga_alt_def gga_sats_def

lemma stages_keep_dop:
  "pdop (snd (rmc_valid m g)) = pdop g" "fix_type (snd (rmc_valid m g)) = fix_type g"
  "pdop (snd (rmc_position m g)) = pdop g" "fix_type (snd (rmc_position m g)) = fix_type g"
  "pdop (snd (rmc_course m g)) = pdop g" "fix_type (snd (rmc_course m g)) = fix_type g"
  "pdop (snd (rmc_speed m g)) = pdop g" "fix_type (snd (rmc_speed m g)) = fix_type g"
  "pdop (snd (rmc_posTime m g)) = pdop g" "fix_type (snd (rmc_posTime m g)) = fix_type g"
  "pdop (snd (gga_alt a g)) = pdop g" "fix_type (snd (gga_alt a g)) = fix_type g"
  "pdop (snd (gga_sats a g)) = pdop g" "fix_type (snd (gga_sats a g)) = fix_type g"
  by (simp_all add: stage_defs split: sum.splits)

lemma stages_keep_valid:
  "valid (snd (rmc_position m g)) = valid g"
  "valid (snd (rmc_course m g)) = valid g"
  "valid (snd (rmc_speed m g)) = valid g"
  "valid (snd (rmc_posTime m g)) = valid g"
  "valid (snd (gga_alt a g)) = valid g"
  "valid (snd (gga_sats a g)) = valid g"
  by (simp_all add: stage_defs split: sum.splits)

lemma stages_keep_position:
  "lat (snd (rmc_valid m g)) = lat g" "lon (snd (rmc_valid m g)) = lon g"
  "lat (snd (rmc_course m g)) = lat g" "lon (snd (rmc_course m g)) = lon g"
  "lat (snd (rmc_speed m g)) = lat g" "lon (snd (rmc_speed m g)) = lon g"
  "lat (snd (rmc_posTime m g)) = lat g" "lon (snd (rmc_posTime m g)) = lon g"
  "lat (snd (gga_alt a g)) = lat g" "lon (snd (gga_alt a g)) = lon g"
  "lat (snd (gga_sats a g)) = lat g" "lon (snd (gga_sats a g)) = lon g"
  by (simp_all add: stage_defs split: sum.splits)

lemma stages_keep_course:
  "course (snd (rmc_valid m g)) = course g"
  "course (snd (rmc_position m g)) = course g"
  "course (snd (rmc_speed m g)) = course g"
  "course (snd (rmc_posTime m g)) = course g"
  "course (snd (gga_alt a g)) = course g"
  "course (snd (gga_sats a g)) = course g"
  by (simp_all add: stage_defs split: sum.splits)

lemma stages_keep_speed:
  "speed_m_s (snd (rmc_valid m g)) = speed_m_s g"
  "speed_m_s (snd (rmc_position m g)) = speed_m_s g"
  "speed_m_s (snd (rmc_course m g)) = speed_m_s g"
  "speed_m_s (snd (rmc_posTime m g)) = speed_m_s g"
  "speed_m_s (snd (gga_alt a g)) = speed_m_s g"
  "speed_m_s (snd (gga_sats a g)) = speed_m_s g"
  by (simp_all add: stage_defs split: sum.splits)


lemma stage_exc_indep:
  "fst (rmc_valid m g) = None"
  "fst (rmc_position m g) = fst (rmc_position m g')"
  "fst (rmc_course m g) = fst (rmc_course m g')"
  "fst (rmc_speed m g) = fst (rmc_speed m g')"
  "fst (rmc_posTime m g) = fst (rmc_posTime m g')"
  "fst (gga_alt a g) = fst (gga_alt a g')"
  "fst (gga_sats a g) = fst (gga_sats a g')"
  by (simp_all add: stage_defs split: sum.splits)

subsection \<open>The handlers\<close>

lemma handle_rmc_keeps_dop:
  "pdop (snd (handle_rmc m g)) = pdop g" "fix_type (snd (handle_rmc m g)) = fix_type g"
  unfolding handle_rmc_def
  by (simp_all add: and_then_keeps[where sel=pdop] and_then_keeps[where sel=fix_type]
        stages_keep_dop)

lemma handle_gga_keeps_dop:
  "pdop (snd (handle_gga a g)) = pdop g" "fix_type (snd (handle_gga a g)) = fix_type g"
  unfolding handle_gga_def
  by (simp_all add: and_then_keeps[where sel=pdop] and_then_keeps[where sel=fix_type]
        stages_keep_dop)

lemma handle_msg_keeps_dop:
  "pdop (snd (handle_msg msg g)) = pdop g" "fix_type (snd (handle_msg msg g)) = fix_type g"
  by (cases msg; simp add: handle_msg_def handle_rmc_keeps_dop handle_gga_keeps_dop)+

lemma handle_rmc_valid:
  "valid (snd (handle_rmc m g)) = (valid g \<or> msg_status m = PyStr ''A'')"
proof -
  have "valid (snd (handle_rmc m g)) = valid (snd (rmc_valid m g))"
    unfolding handle_rmc_def
    by (simp add: and_then_keeps[where sel=valid] stages_keep_valid)
  then show ?thesis by (simp add: rmc_valid_def)
qed

lemma handle_gga_valid: "valid (snd (handle_gga a g)) = valid g"
  unfolding handle_gga_def
  by (simp add: and_then_keeps[where sel=valid] stages_keep_valid and_then_None
        stage_exc_indep split: option.splits)

lemma handle_gga_keeps_position:
  "lat (snd (handle_gga a g)) = lat g" "lon (snd (handle_gga a g)) = lon g"
  unfolding handle_gga_def
  by (simp_all add: and_then_keeps[where sel=lat] and_then_keeps[where sel=lon]
        stages_keep_position)

lemma handle_rmc_position:
  "lat (snd (handle_rmc m g)) = lat (snd (rmc_position m g))"
  "lon (snd (handle_rmc m g)) = lon (snd (rmc_position m g))"
proof -
  have v: "and_then (rmc_valid m g) (rmc_position m) = rmc_position m (snd (rmc_valid m g))"
    by (simp add: and_then_None stage_exc_indep)
  have k: "lat (snd (rmc_position m (snd (rmc_valid m g)))) = lat (snd (rmc_position m g))"
    "lon (snd (rmc_position m (snd (rmc_valid m g)))) = lon (snd (rmc_position m g))"
    by (simp_all add: rmc_position_def rmc_valid_def split: sum.splits)
  show "lat (snd (handle_rmc m g)) = lat (snd (rmc_position m g))"
    unfolding handle_rmc_def
    by (simp add: and_then_keeps[where sel=lat] stages_keep_position v k)
  show "lon (snd (handle_rmc m g)) = lon (snd (rmc_position m g))"
    unfolding handle_rmc_def
    by (simp add: and_then_keeps[where sel=lon] stages_keep_position v k)
qed

lemma rmc_position_cases:
  obtains (stores) la lo where "msg_latitude m = Inr la" "fl_truthy la"
      "msg_longitude m = Inr lo" "fl_truthy lo"
      "rmc_position m g = (None, g\<lparr>lat := Some la, lon := Some lo\<rparr>)"
  | (keeps) "snd (rmc_position m g) = g"
      "\<not> (\<exists>la lo. msg_latitude m = Inr la \<and> fl_truthy la \<and> msg_longitude m = Inr lo \<and> fl_truthy lo)"
proof (cases "\<exists>la lo. msg_latitude m = Inr la \<and> fl_truthy la \<and> msg_longitude m = Inr lo \<and> fl_truthy lo")
  case True
  then obtain la lo where "msg_latitude m = Inr la" "fl_truthy la" "msg_longitude m = Inr lo" "fl_truthy lo"
    by blast
  then show ?thesis using stores by (simp add: rmc_position_def)
next
  case False
  then have "snd (rmc_position m g) = g"
    by (auto simp: rmc_position_def split: sum.splits)
  with False show ?thesis using keeps by blast
qed

subsection \<open>One iteration\<close>

lemma decoded_SomeD:
  assumes "decoded parse raw = Some msg"
  shows "startswith (read_line raw) ''$''" "fst (gsa_block (read_line raw) g) = None"
    "parse (read_line raw) = Inr msg"
proof -
  from assms show s: "startswith (read_line raw) ''$''"
    by (simp add: decoded_def Let_def split: if_splits)
  from assms s have "fst (gsa_block (read_line raw) (initial_gps_data [])) = None"
    by (simp add: decoded_def Let_def split: option.splits)
  then show n: "fst (gsa_block (read_line raw) g) = None"
    using gsa_block_exc_indep by metis
  from assms s show "parse (read_line raw) = Inr msg"
    by (simp add: decoded_def Let_def split: option.splits sum.splits)
qed

lemma loop_iteration_decoded:
  assumes "decoded parse raw = Some msg"
  shows "loop_iteration parse g raw = snd (handle_msg msg (snd (gsa_block (read_line raw) g)))"
  using decoded_SomeD(1,3)[OF assms] decoded_SomeD(2)[OF assms, of g]
  by (simp add: loop_iteration_def try_body_def Let_def and_then_None dispatch_def)

lemma loop_iteration_undecoded:
  assumes "decoded parse raw = None"
  shows "loop_iteration parse g raw = g \<or>
     loop_iteration parse g raw = snd (gsa_block (read_line raw) g)"
proof (cases "startswith (read_line raw) ''$''")
  case False
  then show ?thesis by (simp add: loop_iteration_def try_body_def Let_def)
next
  case True
  show ?thesis
  proof (cases "fst (gsa_block (read_line raw) g)")
    case (Some e)
    with True show ?thesis
      by (simp add: loop_iteration_def try_body_def Let_def and_then_Some gsa_block_raise)
  next
    case None
    then have "fst (gsa_block (read_line raw) (initial_gps_data [])) = None"
      using gsa_block_exc_indep by metis
    with assms True obtain e where "parse (read_line raw) = Inl e"
      by (auto simp: decoded_def Let_def split: sum.splits)
    with True None show ?thesis
      by (simp add: loop_iteration_def try_body_def Let_def and_then_None dispatch_def)
  qed
qed

lemma loop_iteration_undecoded_keeps:
  assumes "decoded parse raw = None"
  shows "valid (loop_iteration parse g raw) = valid g"
    "lat (loop_iteration parse g raw) = lat g"
    "lon (loop_iteration parse g raw) = lon g"
    "alt (loop_iteration parse g raw) = alt g"
    "course (loop_iteration parse g raw) = course g"
    "speed_m_s (loop_iteration parse g raw) = speed_m_s g"
    "posTime (loop_iteration parse g raw) = posTime g"
  using loop_iteration_undecoded[OF assms, of g] by (auto simp: gsa_block_keeps)

subsection \<open>The window\<close>

lemma parse_gps_Nil: "parse_gps now parse [] = initial_gps_data now"
  by (simp add: parse_gps_def)

lemma parse_gps_snoc:
  "parse_gps now parse (raws @ [raw]) = loop_iteration parse (parse_gps now parse raws) raw"
  by (simp add: parse_gps_def)

lemma loop_iteration_valid:
  "valid (loop_iteration parse g raw) =
     (valid g \<or> (\<exists>m. decoded parse raw = Some (RMC m) \<and> msg_status m = PyStr ''A''))"
proof (cases "decoded parse raw")
  case None
  then show ?thesis by (simp add: loop_iteration_undecoded_keeps)
next
  case (Some msg)
  then show ?thesis
    by (cases msg)
      (simp_all add: loop_iteration_decoded handle_msg_def handle_rmc_valid handle_gga_valid
         gsa_block_keeps)
qed

lemma parse_gps_valid:
  "valid (parse_gps now parse raws) =
     (\<exists>raw\<in>set raws. \<exists>m. decoded parse raw = Some (RMC m) \<and> msg_status m = PyStr ''A'')"
proof (induction raws rule: rev_induct)
  case Nil
  then show ?case by (simp add: parse_gps_Nil initial_gps_data_def)
next
  case (snoc raw raws)
  then show ?case by (auto simp: parse_gps_snoc loop_iteration_valid)
qed

lemma loop_iteration_position_cases:
  obtains (stores) m la lo where "decoded parse raw = Some (RMC m)"
      "msg_latitude m = Inr la" "fl_truthy la" "msg_longitude m = Inr lo" "fl_truthy lo"
      "lat (loop_iteration parse g raw) = Some la" "lon (loop_iteration parse g raw) = Some lo"
  | (keeps) "lat (loop_iteration parse g raw) = lat g" "lon (loop_iteration parse g raw) = lon g"
      "\<not> (\<exists>m la lo. decoded parse raw = Some (RMC m) \<and> msg_latitude m = Inr la \<and> fl_truthy la
           \<and> msg_longitude m = Inr lo \<and> fl_truthy lo)"
proof (cases "decoded parse raw")
  case None
  then show ?thesis using keeps by (simp add: loop_iteration_undecoded_keeps)
next
  case (Some msg)
  show ?thesis
  proof (cases msg)
    case (RMC m)
    let ?g = "snd (gsa_block (read_line raw) g)"
    have it: "lat (loop_iteration parse g raw) = lat (snd (rmc_position m ?g))"
      "lon (loop_iteration parse g raw) = lon (snd (rmc_position m ?g))"
      using Some RMC by (simp_all add: loop_iteration_decoded handle_msg_def handle_rmc_position)
    show ?thesis
    proof (cases rule: rmc_position_cases[of m ?g])
      case (stores la lo)
      then show ?thesis using it Some RMC by (intro that(1)[of m la lo]) simp_all
    next
      case keeps
      then show ?thesis using it Some RMC by (intro that(2)) (simp_all add: gsa_block_keeps)
    qed
  next
    case (GGA a)
    with Some show ?thesis
      by (intro keeps)
        (simp_all add: loop_iteration_decoded handle_msg_def handle_gga_keeps_position
           gsa_block_keeps)
  next
    case OtherSentence
    with Some show ?thesis
      by (intro keeps) (simp_all add: loop_iteration_decoded handle_msg_def gsa_block_keeps)
  qed
qed

lemma parse_gps_position:
  "(lat (parse_gps now parse raws) = None \<longleftrightarrow> lon (parse_gps now parse raws) = None) \<and>
   (lat (parse_gps now parse raws) \<noteq> None \<longleftrightarrow>
      (\<exists>raw\<in>set raws. \<exists>m la lo. decoded parse raw = Some (RMC m) \<and> msg_latitude m = Inr la
          \<and> fl_truthy la \<and> msg_longitude m = Inr lo \<and> fl_truthy lo))"
proof (induction raws rule: rev_induct)
  case Nil
  then show ?case by (simp add: parse_gps_Nil initial_gps_data_def)
next
  case (snoc raw raws)
  show ?case
  proof (cases rule: loop_iteration_position_cases[of parse raw "parse_gps now parse raws"])
    case (stores m la lo)
    then show ?thesis by (auto simp: parse_gps_snoc)
  next
    case keeps
    with snoc show ?thesis by (auto simp: parse_gps_snoc)
  qed
qed

section \<open>The example sentences, evaluated\<close>


lemmas example_lines = RMC_A_LINE_def RMC_F_LINE_def RMC_EQUATOR_LINE_def RMC_EMPTY_LINE_def
  RMC_BAD_COURSE_LINE_def GGA_NO_ALT_LINE_def GSA_3D_LINE_def GSA_NO_FIX_LINE_def
  GSA_CUT_LINE_def GSA_SHORT_LINE_def

lemma example_read_line:
  "read_line (RMC_A_LINE @ crlf) = RMC_A_LINE"
  "read_line (RMC_F_LINE @ crlf) = RMC_F_LINE"
  "read_line (RMC_EQUATOR_LINE @ crlf) = RMC_EQUATOR_LINE"
  "read_line (RMC_EMPTY_LINE @ crlf) = RMC_EMPTY_LINE"
  "read_line (RMC_BAD_COURSE_LINE @ crlf) = RMC_BAD_COURSE_LINE"
  "read_line (GGA_NO_ALT_LINE @ crlf) = GGA_NO_ALT_LINE"
  "read_line (GSA_3D_LINE @ crlf) = GSA_3D_LINE"
  "read_line (GSA_NO_FIX_LINE @ crlf) = GSA_NO_FIX_LINE"
  "read_line (GSA_CUT_LINE @ crlf) = GSA_CUT_LINE"
  "read_line (GSA_SHORT_LINE @ crlf) = GSA_SHORT_LINE"
  by code_simp+

lemma example_startswith:
  "startswith RMC_A_LINE ''$''" "startswith RMC_F_LINE ''$''"
  "startswith RMC_EQUATOR_LINE ''$''" "startswith RMC_EMPTY_LINE ''$''"
  "startswith RMC_BAD_COURSE_LINE ''$''" "startswith GGA_NO_ALT_LINE ''$''"
  "startswith GSA_3D_LINE ''$''" "startswith GSA_NO_FIX_LINE ''$''"
  "startswith GSA_CUT_LINE ''$''" "startswith GSA_SHORT_LINE ''$''"
  by (simp_all add: example_lines)

lemma example_contains:
  "\<not> contains RMC_A_LINE ''GSA''" "\<not> contains RMC_F_LINE ''GSA''"
  "\<not> contains RMC_EQUATOR_LINE ''GSA''" "\<not> contains RMC_EMPTY_LINE ''GSA''"
  "\<not> contains RMC_BAD_COURSE_LINE ''GSA''" "\<not> contains GGA_NO_ALT_LINE ''GSA''"
  "contains GSA_3D_LINE ''GSA''" "contains GSA_NO_FIX_LINE ''GSA''"
  "contains GSA_CUT_LINE ''GSA''" "contains GSA_SHORT_LINE ''GSA''"
  by (simp_all add: example_lines)

lemma example_parse_values:
  "example_parse RMC_A_LINE = Inr (RMC rmc_a)"
  "example_parse RMC_F_LINE = Inr (RMC rmc_f)"
  "example_parse RMC_EQUATOR_LINE = Inr (RMC rmc_equator)"
  "example_parse RMC_EMPTY_LINE = Inr (RMC rmc_empty)"
  "example_parse RMC_BAD_COURSE_LINE = Inr (RMC rmc_bad_course)"
  "example_parse GGA_NO_ALT_LINE = Inr (GGA gga_no_alt)"
  "example_parse GSA_3D_LINE = Inr OtherSentence"
  "example_parse GSA_NO_FIX_LINE = Inr OtherSentence"
  "example_parse GSA_SHORT_LINE = Inr OtherSentence"
  by (simp_all add: example_parse_def example_lines)

lemma example_split:
  "split_on CHR '','' GSA_3D_LINE =
     [''$GPGSA'', ''A'', ''3'', ''04'', ''05'', '''', ''09'', ''12'', '''', '''', ''24'', '''',
      '''', '''', '''', ''2.5'', ''1.3'', ''2.1*39'']"
  "split_on CHR '','' GSA_NO_FIX_LINE =
     [''$GPGSA'', ''A'', ''1'', '''', '''', '''', '''', '''', '''', '''', '''', '''',
      '''', '''', '''', '''', '''', ''*1E'']"
  "split_on CHR '','' GSA_CUT_LINE =
     [''$GPGSA'', ''A'', ''3'', ''04'', ''05'', '''', ''09'', ''12'', '''', '''', ''24'', '''',
      '''', '''', '''', ''2.5*38'']"
  "split_on CHR '','' GSA_SHORT_LINE = [''$GPGSA'', ''A'', ''3'', ''04'', ''05'']"
  by code_simp+

lemma example_floats:
  "py_float_of_str ''2.5'' = Inr (Fin (5 / 2))"
  "py_float_of_str ''2.5*38'' = Inl ValueError"
  "py_float_of_str ''abc'' = Inl ValueError"
  by code_simp+

lemma example_gsa_block:
  "gsa_block GSA_3D_LINE g = (None, g\<lparr>pdop := Some (Fin (5 / 2)), fix_type := ''3D''\<rparr>)"
  "gsa_block GSA_NO_FIX_LINE g = (None, g\<lparr>pdop := None\<rparr>)"
  "gsa_block GSA_CUT_LINE g = (Some ValueError, g)"
  "gsa_block GSA_SHORT_LINE g = (None, g)"
proof -
  show "gsa_block GSA_3D_LINE g = (None, g\<lparr>pdop := Some (Fin (5 / 2)), fix_type := ''3D''\<rparr>)"
    using gsa_block_updates[of GSA_3D_LINE "Some (Fin (5 / 2))" "Fin (5 / 2)" g]
    by (simp add: example_contains example_split example_floats)
  show "gsa_block GSA_NO_FIX_LINE g = (None, g\<lparr>pdop := None\<rparr>)"
    using gsa_block_updates[of GSA_NO_FIX_LINE None undefined g]
    by (simp add: example_contains example_split)
  show "gsa_block GSA_CUT_LINE g = (Some ValueError, g)"
    using gsa_block_raises[of GSA_CUT_LINE ValueError g]
    by (simp add: example_contains example_split example_floats)
  show "gsa_block GSA_SHORT_LINE g = (None, g)"
    using gsa_block_skip[of GSA_SHORT_LINE g]
    by (simp add: example_split)
qed

lemma example_decoded:
  "decoded example_parse (RMC_A_LINE @ crlf) = Some (RMC rmc_a)"
  "decoded example_parse (RMC_F_LINE @ crlf) = Some (RMC rmc_f)"
  "decoded example_parse (RMC_EQUATOR_LINE @ crlf) = Some (RMC rmc_equator)"
  "decoded example_parse (RMC_EMPTY_LINE @ crlf) = Some (RMC rmc_empty)"
  "decoded example_parse (RMC_BAD_COURSE_LINE @ crlf) = Some (RMC rmc_bad_course)"
  "decoded example_parse (GGA_NO_ALT_LINE @ crlf) = Some (GGA gga_no_alt)"
  "decoded example_parse (GSA_3D_LINE @ crlf) = Some OtherSentence"
  "decoded example_parse (GSA_NO_FIX_LINE @ crlf) = Some OtherSentence"
  "decoded example_parse (GSA_SHORT_LINE @ crlf) = Some OtherSentence"
  "decoded example_parse (GSA_CUT_LINE @ crlf) = None"
  by (simp_all add: decoded_def example_read_line example_startswith example_gsa_block
        gsa_block_skip example_contains example_parse_values)

lemma example_numbers:
  "KNOTS_TO_M_S = Fin (4633699613405975 / 9007199254740992)"
  "py_round1 (fl_mul (Fin 10) KNOTS_TO_M_S) = rd (51 / 10)"
  "py_round1 (fl_mul (Fin 0) KNOTS_TO_M_S) = Fin 0"
  "py_round1 float_84_4 = float_84_4"
  "fl_truthy float_84_4"
  "py_int (PyFloat float_84_4) = Inr 84"
  "fl_to_int (rd (51 / 10)) = Inr 5"
  "rd (51 / 10) = Fin (2871044762448691 / 562949953421312)"
  by code_simp+

lemma example_times:
  "strftime_ymd (PyDate 1994 3 23) = Inr ''1994-03-23''"
  "strftime_hms (PyTime 12 35 19) = Inr ''12:35:19''"
  "strftime_hms (PyTime 12 35 20) = Inr ''12:35:20''"
  by code_simp+

lemmas handler_defs = handle_rmc_def handle_gga_def rmc_valid_def rmc_position_def
  rmc_course_def rmc_speed_def rmc_posTime_def gga_alt_def gga_sats_def and_then_def

lemma example_handle_rmc:
  "handle_rmc rmc_a g =
     (None, g\<lparr>valid := True, lat := Some (Fin (385 / 8)), lon := Some (Fin (23 / 2)),
              course := PyFloat float_84_4, speed_m_s := rd (51 / 10),
              posTime := Some ''1994-03-23T12:35:19Z''\<rparr>)"
  "handle_rmc rmc_f g =
     (None, g\<lparr>lat := Some (Fin (385 / 8)), lon := Some (Fin (23 / 2)),
              course := PyFloat float_84_4, speed_m_s := rd (51 / 10),
              posTime := Some ''1994-03-23T12:35:20Z''\<rparr>)"
  "handle_rmc rmc_equator g =
     (None, g\<lparr>valid := True, course := PyFloat float_84_4, speed_m_s := rd (51 / 10),
              posTime := Some ''1994-03-23T12:35:19Z''\<rparr>)"
  "handle_rmc rmc_empty g =
     (None, g\<lparr>valid := True, lat := Some (Fin (385 / 8)), lon := Some (Fin (23 / 2)),
              course := PyInt 0, speed_m_s := Fin 0,
              posTime := Some ''1994-03-23T12:35:19Z''\<rparr>)"
  "handle_rmc rmc_bad_course g =
     (Some ValueError, g\<lparr>valid := True, lat := Some (Fin (385 / 8)), lon := Some (Fin (23 / 2))\<rparr>)"
  by (simp_all add: handler_defs rmc_a_def rmc_f_def rmc_equator_def rmc_empty_def
        rmc_bad_course_def example_numbers(2-5) example_times example_floats
      del: strftime_ymd.simps strftime_hms.simps)

lemma example_handle_gga:
  "handle_gga gga_no_alt g = (None, g\<lparr>alt := Some (Fin 0), sats := Some 8\<rparr>)"
proof -
  have "py_int_of_str ''08'' = Inr 8" by code_simp
  then show ?thesis by (simp add: handler_defs gga_no_alt_def)
qed

lemma example_iteration:
  "loop_iteration example_parse g (RMC_A_LINE @ crlf) = snd (handle_rmc rmc_a g)"
  "loop_iteration example_parse g (RMC_F_LINE @ crlf) = snd (handle_rmc rmc_f g)"
  "loop_iteration example_parse g (RMC_EQUATOR_LINE @ crlf) = snd (handle_rmc rmc_equator g)"
  "loop_iteration example_parse g (RMC_EMPTY_LINE @ crlf) = snd (handle_rmc rmc_empty g)"
  "loop_iteration example_parse g (RMC_BAD_COURSE_LINE @ crlf) = snd (handle_rmc rmc_bad_course g)"
  "loop_iteration example_parse g (GGA_NO_ALT_LINE @ crlf) = snd (handle_gga gga_no_alt g)"
  "loop_iteration example_parse g (GSA_3D_LINE @ crlf) =
     g\<lparr>pdop := Some (Fin (5 / 2)), fix_type := ''3D''\<rparr>"
  "loop_iteration example_parse g (GSA_NO_FIX_LINE @ crlf) = g\<lparr>pdop := None\<rparr>"
  "loop_iteration example_parse g (GSA_SHORT_LINE @ crlf) = g"
  by (simp_all add: loop_iteration_decoded example_decoded example_read_line handle_msg_def
        gsa_block_skip example_contains example_gsa_block)

section \<open>The event state machine and the main loop\<close>


lemma rd_3_2:
  "rd (32 / 10) = Fin (3602879701896397 / 1125899906842624)"
  "rd (16 / 5) = Fin (3602879701896397 / 1125899906842624)"
  by code_simp+

lemma event_codes:
  "map_of EVENT_CODES ''POWER ON'' = Some 1"
  "map_of EVENT_CODES ''MOVING'' = Some 3"
  "map_of EVENT_CODES ''STOPPED'' = Some 4"
  "map_of EVENT_CODES ''Position Report'' = Some 0"
  by (simp_all add: EVENT_CODES_def)

lemma classify_event_cases:
  "classify_event st gps =
     (if \<not> power_on_logged st then
        (''POWER ON'', st\<lparr>power_on_logged := True, in_motion := fl_gt0 (speed_m_s gps)\<rparr>)
      else if \<not> in_motion st \<and> fl_gt0 (speed_m_s gps) then (''MOVING'', st\<lparr>in_motion := True\<rparr>)
      else if in_motion st \<and> fl_eq0 (speed_m_s gps) then (''STOPPED'', st\<lparr>in_motion := False\<rparr>)
      else (''Position Report'', st))"
  by (simp add: classify_event_def)

lemma fl_gt0_not_eq0: "fl_gt0 v \<Longrightarrow> \<not> fl_eq0 v"
  by (cases v) simp_all

lemma event_state_machine_fix:
  assumes "valid gps" "opt_truthy (lat gps)" "opt_truthy (lon gps)"
  shows "event_state_machine st gps =
     Inr (Some (fst (classify_event st gps),
                the (map_of EVENT_CODES (fst (classify_event st gps)))),
          snd (classify_event st gps))"
  using assms
  by (simp add: event_state_machine_def classify_event_def event_codes)

lemma main_loop_body_fix:
  assumes "event_state_machine st gps = Inr (Some (etype, code), st1)"
  shows "main_loop_body imei st gps =
     (case create_aff_feature gps imei code etype [] of
        Inl e \<Rightarrow> Inl e
      | Inr f \<Rightarrow> Inr (Logged f, st1\<lparr>features := features st1 @ [f], prev_speed := speed_m_s gps\<rparr>))"
  using assms by (simp add: main_loop_body_def)

lemma create_aff_feature_event:
  "create_aff_feature gps imei code etype extra = Inr f \<Longrightarrow>
     event_type f = etype \<and> event_code f = code"
  by (auto simp: create_aff_feature_def split: sum.splits)

lemma create_aff_feature_total:
  "py_int (course gps) = Inr c \<Longrightarrow> fl_to_int (speed_m_s gps) = Inr s \<Longrightarrow>
     \<exists>f. create_aff_feature gps imei code etype extra = Inr f"
  by (simp add: create_aff_feature_def)

lemma main_loop_body_step:
  assumes "valid gps" "opt_truthy (lat gps)" "opt_truthy (lon gps)"
    "py_int (course gps) = Inr c" "fl_to_int (speed_m_s gps) = Inr s"
  obtains out st' where "main_loop_body imei st gps = Inr (out, st')"
    "emitted out = Some (fst (classify_event st gps),
       the (map_of EVENT_CODES (fst (classify_event st gps))))"
    "power_on_logged st' = power_on_logged (snd (classify_event st gps))"
    "in_motion st' = in_motion (snd (classify_event st gps))"
proof -
  let ?etype = "fst (classify_event st gps)"
  let ?code = "the (map_of EVENT_CODES ?etype)"
  let ?st1 = "snd (classify_event st gps)"
  have esm: "event_state_machine st gps = Inr (Some (?etype, ?code), ?st1)"
    using assms(1-3) by (rule event_state_machine_fix)
  obtain f where f: "create_aff_feature gps imei ?code ?etype [] = Inr f"
    using create_aff_feature_total[OF assms(4,5)] by blast
  let ?st' = "?st1\<lparr>features := features ?st1 @ [f], prev_speed := speed_m_s gps\<rparr>"
  have a: "main_loop_body imei st gps = Inr (Logged f, ?st')"
    by (simp add: main_loop_body_fix[OF esm] f)
  have b: "emitted (Logged f) = Some (?etype, ?code)"
    using create_aff_feature_event[OF f] by simp
  show ?thesis by (rule that[OF a b]) simp_all
qed

lemma main_loop_Cons_emitted:
  assumes "main_loop_body imei st gps = Inr (out, st1)"
  shows "map_sum id (map emitted \<circ> fst) (main_loop imei st (gps # rest)) =
     map_sum id ((#) (emitted out)) (map_sum id (map emitted \<circ> fst) (main_loop imei st1 rest))"
  using assms by (simp split: sum.splits prod.splits)

lemma fix_at_speed_fix:
  "valid (fix_at_speed v)" "opt_truthy (lat (fix_at_speed v))" "opt_truthy (lon (fix_at_speed v))"
  "py_int (course (fix_at_speed v)) = Inr 0" "speed_m_s (fix_at_speed v) = v"
  by (simp_all add: fix_at_speed_def initial_gps_data_def)

lemma main_loop_example:
  "map_sum id (map emitted \<circ> fst)
     (main_loop imei initial_loop_state
        [fix_at_speed (Fin 0), fix_at_speed (Fin 0), fix_at_speed (rd (32 / 10)),
         fix_at_speed (rd (32 / 10)), fix_at_speed (Fin 0)]) =
   Inr [Some (''POWER ON'', 1), Some (''Position Report'', 0), Some (''MOVING'', 3),
        Some (''Position Report'', 0), Some (''STOPPED'', 4)]"
proof -
  let ?slow = "fix_at_speed (Fin 0)" and ?fast = "fix_at_speed (rd (32 / 10))"
  have int0: "fl_to_int (speed_m_s ?slow) = Inr 0"
    by (simp add: fix_at_speed_fix trunc0_def)
  have "fl_to_int (rd (32 / 10)) = Inr 3"
    by code_simp
  then have int3: "fl_to_int (speed_m_s ?fast) = Inr 3"
    by (simp only: fix_at_speed_fix)
  note cl = classify_event_cases fix_at_speed_fix(5) event_codes rd_3_2 initial_loop_state_def
  obtain o1 s1 where 1: "main_loop_body imei initial_loop_state ?slow = Inr (o1, s1)"
    "emitted o1 = Some (''POWER ON'', 1)" "power_on_logged s1" "\<not> in_motion s1"
    by (rule main_loop_body_step[OF fix_at_speed_fix(1-4) int0, where imei=imei and st=initial_loop_state])
      (simp add: cl)
  obtain o2 s2 where 2: "main_loop_body imei s1 ?slow = Inr (o2, s2)"
    "emitted o2 = Some (''Position Report'', 0)" "power_on_logged s2" "\<not> in_motion s2"
    by (rule main_loop_body_step[OF fix_at_speed_fix(1-4) int0, where imei=imei and st=s1])
      (simp add: cl 1)
  obtain o3 s3 where 3: "main_loop_body imei s2 ?fast = Inr (o3, s3)"
    "emitted o3 = Some (''MOVING'', 3)" "power_on_logged s3" "in_motion s3"
    by (rule main_loop_body_step[OF fix_at_speed_fix(1-4) int3, where imei=imei and st=s2])
      (simp add: cl 2)
  obtain o4 s4 where 4: "main_loop_body imei s3 ?fast = Inr (o4, s4)"
    "emitted o4 = Some (''Position Report'', 0)" "power_on_logged s4" "in_motion s4"
    by (rule main_loop_body_step[OF fix_at_speed_fix(1-4) int3, where imei=imei and st=s3])
      (simp add: cl 3)
  obtain o5 s5 where 5: "main_loop_body imei s4 ?slow = Inr (o5, s5)"
    "emitted o5 = Some (''STOPPED'', 4)"
    by (rule main_loop_body_step[OF fix_at_speed_fix(1-4) int0, where imei=imei and st=s4])
      (simp add: cl 4)
  show ?thesis
    by (simp only: main_loop_Cons_emitted[OF 1(1)] main_loop_Cons_emitted[OF 2(1)]
          main_loop_Cons_emitted[OF 3(1)] main_loop_Cons_emitted[OF 4(1)]
          main_loop_Cons_emitted[OF 5(1)] 1(2) 2(2) 3(2) 4(2) 5(2))
       simp
qed

lemma classify_event_rows:
  "\<not> power_on_logged st \<Longrightarrow> classify_event st gps =
     (''POWER ON'', st\<lparr>power_on_logged := True, in_motion := fl_gt0 (speed_m_s gps)\<rparr>)"
  "power_on_logged st \<Longrightarrow> \<not> in_motion st \<Longrightarrow> fl_gt0 (speed_m_s gps) \<Longrightarrow>
     classify_event st gps = (''MOVING'', st\<lparr>in_motion := True\<rparr>)"
  "power_on_logged st \<Longrightarrow> \<not> in_motion st \<Longrightarrow> \<not> fl_gt0 (speed_m_s gps) \<Longrightarrow>
     classify_event st gps = (''Position Report'', st)"
  "power_on_logged st \<Longrightarrow> in_motion st \<Longrightarrow> fl_eq0 (speed_m_s gps) \<Longrightarrow>
     classify_event st gps = (''STOPPED'', st\<lparr>in_motion := False\<rparr>)"
  "power_on_logged st \<Longrightarrow> in_motion st \<Longrightarrow> \<not> fl_eq0 (speed_m_s gps) \<Longrightarrow>
     classify_event st gps = (''Position Report'', st)"
  by (simp_all add: classify_event_def)

lemma main_loop_body_emits:
  assumes "event_state_machine st gps = Inr (Some (etype, code), st')"
  shows "(\<forall>out st2. main_loop_body imei st gps = Inr (out, st2) \<longrightarrow>
            emitted out = Some (etype, code) \<and>
            power_on_logged st2 = power_on_logged st' \<and> in_motion st2 = in_motion st') \<and>
         (\<forall>c s. py_int (course gps) = Inr c \<and> fl_to_int (speed_m_s gps) = Inr s \<longrightarrow>
            (\<exists>out st2. main_loop_body imei st gps = Inr (out, st2)))"
proof (intro conjI allI impI)
  fix out st2
  assume "main_loop_body imei st gps = Inr (out, st2)"
  then obtain f where f: "create_aff_feature gps imei code etype [] = Inr f"
    and o: "out = Logged f"
    and s: "st2 = st'\<lparr>features := features st' @ [f], prev_speed := speed_m_s gps\<rparr>"
    by (auto simp: main_loop_body_fix[OF assms] split: sum.splits)
  show "emitted out = Some (etype, code)"
    using create_aff_feature_event[OF f] o by simp
  show "power_on_logged st2 = power_on_logged st'" "in_motion st2 = in_motion st'"
    using s by simp_all
next
  fix c s
  assume "py_int (course gps) = Inr c \<and> fl_to_int (speed_m_s gps) = Inr s"
  then obtain f where "create_aff_feature gps imei code etype [] = Inr f"
    using create_aff_feature_total[of gps c s imei code etype "[]"] by blast
  then show "\<exists>out st2. main_loop_body imei st gps = Inr (out, st2)"
    by (simp add: main_loop_body_fix[OF assms])
qed

text \<open>
  C4. On a valid fix with both coordinates the event state machine yields an event and a
  new state by these rules: the first such fix gives POWER ON, code 1, and is in motion
  exactly when its speed is above zero; afterwards a stationary logger with speed above
  zero gives MOVING, code 3, and moves; a stationary one with speed zero gives a Position
  Report, code 0, and stays; a moving one with speed zero gives STOPPED, code 4, and
  stops; a moving one with speed above zero gives a Position Report and keeps moving.
  POWER OFF, code 2, never comes out. The turn of the main loop logs that very event and
  keeps those flags, and it completes whenever the course and speed convert to integers.
  The speeds 0, 0, 3.2, 3.2, 0 from the start give POWER ON, Position Report, MOVING,
  Position Report, STOPPED.
\<close>

theorem event_state_machine_transitions:
  "(valid gps \<and> opt_truthy (lat gps) \<and> opt_truthy (lon gps) \<longrightarrow>
      (\<exists>etype code st'.
         event_state_machine st gps = Inr (Some (etype, code), st') \<and>
         etype \<noteq> ''POWER OFF'' \<and> code \<noteq> 2 \<and> power_on_logged st' \<and>
         (\<not> power_on_logged st \<longrightarrow>
            etype = ''POWER ON'' \<and> code = 1 \<and> in_motion st' = fl_gt0 (speed_m_s gps)) \<and>
         (power_on_logged st \<and> \<not> in_motion st \<and> fl_gt0 (speed_m_s gps) \<longrightarrow>
            etype = ''MOVING'' \<and> code = 3 \<and> in_motion st') \<and>
         (power_on_logged st \<and> \<not> in_motion st \<and> fl_eq0 (speed_m_s gps) \<longrightarrow>
            etype = ''Position Report'' \<and> code = 0 \<and> \<not> in_motion st') \<and>
         (power_on_logged st \<and> in_motion st \<and> fl_eq0 (speed_m_s gps) \<longrightarrow>
            etype = ''STOPPED'' \<and> code = 4 \<and> \<not> in_motion st') \<and>
         (power_on_logged st \<and> in_motion st \<and> fl_gt0 (speed_m_s gps) \<longrightarrow>
            etype = ''Position Report'' \<and> code = 0 \<and> in_motion st') \<and>
         (\<forall>out st2. main_loop_body imei st gps = Inr (out, st2) \<longrightarrow>
            emitted out = Some (etype, code) \<and>
            power_on_logged st2 = power_on_logged st' \<and> in_motion st2 = in_motion st') \<and>
         (\<forall>c s. py_int (course gps) = Inr c \<and> fl_to_int (speed_m_s gps) = Inr s \<longrightarrow>
            (\<exists>out st2. main_loop_body imei st gps = Inr (out, st2))))) \<and>
   map_sum id (map emitted \<circ> fst)
     (main_loop imei initial_loop_state
        [fix_at_speed (Fin 0), fix_at_speed (Fin 0), fix_at_speed (rd (32 / 10)),
         fix_at_speed (rd (32 / 10)), fix_at_speed (Fin 0)]) =
   Inr [Some (''POWER ON'', 1), Some (''Position Report'', 0), Some (''MOVING'', 3),
        Some (''Position Report'', 0), Some (''STOPPED'', 4)]"
proof (intro conjI impI)
  assume v: "valid gps \<and> opt_truthy (lat gps) \<and> opt_truthy (lon gps)"
  let ?P = "\<lambda>etype code st'.
         event_state_machine st gps = Inr (Some (etype, code), st') \<and>
         etype \<noteq> ''POWER OFF'' \<and> code \<noteq> 2 \<and> power_on_logged st' \<and>
         (\<not> power_on_logged st \<longrightarrow>
            etype = ''POWER ON'' \<and> code = 1 \<and> in_motion st' = fl_gt0 (speed_m_s gps)) \<and>
         (power_on_logged st \<and> \<not> in_motion st \<and> fl_gt0 (speed_m_s gps) \<longrightarrow>
            etype = ''MOVING'' \<and> code = 3 \<and> in_motion st') \<and>
         (power_on_logged st \<and> \<not> in_motion st \<and> fl_eq0 (speed_m_s gps) \<longrightarrow>
            etype = ''Position Report'' \<and> code = 0 \<and> \<not> in_motion st') \<and>
         (power_on_logged st \<and> in_motion st \<and> fl_eq0 (speed_m_s gps) \<longrightarrow>
            etype = ''STOPPED'' \<and> code = 4 \<and> \<not> in_motion st') \<and>
         (power_on_logged st \<and> in_motion st \<and> fl_gt0 (speed_m_s gps) \<longrightarrow>
            etype = ''Position Report'' \<and> code = 0 \<and> in_motion st') \<and>
         (\<forall>out st2. main_loop_body imei st gps = Inr (out, st2) \<longrightarrow>
            emitted out = Some (etype, code) \<and>
            power_on_logged st2 = power_on_logged st' \<and> in_motion st2 = in_motion st') \<and>
         (\<forall>c s. py_int (course gps) = Inr c \<and> fl_to_int (speed_m_s gps) = Inr s \<longrightarrow>
            (\<exists>out st2. main_loop_body imei st gps = Inr (out, st2)))"
  note esm = event_state_machine_fix[of gps st] main_loop_body_emits[of st gps _ _ _ imei]
  have excl: "\<not> (fl_gt0 (speed_m_s gps) \<and> fl_eq0 (speed_m_s gps))"
    using fl_gt0_not_eq0 by blast
  consider (first) "\<not> power_on_logged st"
    | (moving) "power_on_logged st" "\<not> in_motion st" "fl_gt0 (speed_m_s gps)"
    | (still) "power_on_logged st" "\<not> in_motion st" "\<not> fl_gt0 (speed_m_s gps)"
    | (stopped) "power_on_logged st" "in_motion st" "fl_eq0 (speed_m_s gps)"
    | (cruise) "power_on_logged st" "in_motion st" "\<not> fl_eq0 (speed_m_s gps)"
    by blast
  then show "\<exists>etype code st'. ?P etype code st'"
  proof cases
    case first
    let ?st' = "st\<lparr>power_on_logged := True, in_motion := fl_gt0 (speed_m_s gps)\<rparr>"
    have e: "event_state_machine st gps = Inr (Some (''POWER ON'', 1), ?st')"
      using v by (simp add: esm(1) classify_event_rows(1)[OF first] event_codes)
    have "?P ''POWER ON'' 1 ?st'"
      using first main_loop_body_emits[OF e, of imei] by (simp add: e)
    then show ?thesis by (intro exI)
  next
    case moving
    let ?st' = "st\<lparr>in_motion := True\<rparr>"
    have e: "event_state_machine st gps = Inr (Some (''MOVING'', 3), ?st')"
      using v by (simp add: esm(1) classify_event_rows(2)[OF moving] event_codes)
    have "?P ''MOVING'' 3 ?st'"
      using moving excl main_loop_body_emits[OF e, of imei] by (simp add: e)
    then show ?thesis by (intro exI)
  next
    case still
    have e: "event_state_machine st gps = Inr (Some (''Position Report'', 0), st)"
      using v by (simp add: esm(1) classify_event_rows(3)[OF still] event_codes)
    have "?P ''Position Report'' 0 st"
      using still main_loop_body_emits[OF e, of imei] by (simp add: e)
    then show ?thesis by (intro exI)
  next
    case stopped
    let ?st' = "st\<lparr>in_motion := False\<rparr>"
    have e: "event_state_machine st gps = Inr (Some (''STOPPED'', 4), ?st')"
      using v by (simp add: esm(1) classify_event_rows(4)[OF stopped] event_codes)
    have "?P ''STOPPED'' 4 ?st'"
      using stopped excl main_loop_body_emits[OF e, of imei] by (simp add: e)
    then show ?thesis by (intro exI)
  next
    case cruise
    have e: "event_state_machine st gps = Inr (Some (''Position Report'', 0), st)"
      using v by (simp add: esm(1) classify_event_rows(5)[OF cruise] event_codes)
    have "?P ''Position Report'' 0 st"
      using cruise main_loop_body_emits[OF e, of imei] by (simp add: e)
    then show ?thesis by (intro exI)
  qed
next
  show "map_sum id (map emitted \<circ> fst)
     (main_loop imei initial_loop_state
        [fix_at_speed (Fin 0), fix_at_speed (Fin 0), fix_at_speed (rd (32 / 10)),
         fix_at_speed (rd (32 / 10)), fix_at_speed (Fin 0)]) =
   Inr [Some (''POWER ON'', 1), Some (''Position Report'', 0), Some (''MOVING'', 3),
        Some (''Position Report'', 0), Some (''STOPPED'', 4)]"
    by (rule main_loop_example)
qed

text \<open>
  C5. A dictionary that is not valid, or that lacks the latitude or the longitude, gives
  no event and no feature: the turn of the main loop reports "No fix" and returns the
  state it was given, flags and collected features alike.
\<close>

theorem no_fix_leaves_state:
  "\<not> valid gps \<or> lat gps = None \<or> lon gps = None \<Longrightarrow>
     event_state_machine st gps = Inr (None, st) \<and>
     main_loop_body imei st gps = Inr (NoFix, st)"
  by (auto simp: event_state_machine_def main_loop_body_def)


theorem event_state_machine_transitions_witness:
  "valid (fix_at_speed (Fin 0)) \<and> opt_truthy (lat (fix_at_speed (Fin 0))) \<and>
   opt_truthy (lon (fix_at_speed (Fin 0))) \<and>
   event_state_machine initial_loop_state (fix_at_speed (Fin 0)) =
     Inr (Some (''POWER ON'', 1), initial_loop_state\<lparr>power_on_logged := True\<rparr>) \<and>
   event_state_machine (initial_loop_state\<lparr>power_on_logged := True\<rparr>) (fix_at_speed (rd (32 / 10))) =
     Inr (Some (''MOVING'', 3), initial_loop_state\<lparr>power_on_logged := True, in_motion := True\<rparr>) \<and>
   event_state_machine (initial_loop_state\<lparr>power_on_logged := True\<rparr>) (fix_at_speed (Fin 0)) =
     Inr (Some (''Position Report'', 0), initial_loop_state\<lparr>power_on_logged := True\<rparr>) \<and>
   event_state_machine (initial_loop_state\<lparr>power_on_logged := True, in_motion := True\<rparr>)
       (fix_at_speed (Fin 0)) =
     Inr (Some (''STOPPED'', 4), initial_loop_state\<lparr>power_on_logged := True, in_motion := False\<rparr>) \<and>
   event_state_machine (initial_loop_state\<lparr>power_on_logged := True, in_motion := True\<rparr>)
       (fix_at_speed (rd (32 / 10))) =
     Inr (Some (''Position Report'', 0),
          initial_loop_state\<lparr>power_on_logged := True, in_motion := True\<rparr>)"
  using event_state_machine_transitions[of "fix_at_speed (Fin 0)" initial_loop_state
      "''356938035643809''"]
    event_state_machine_transitions[of "fix_at_speed (rd (32 / 10))"
      "initial_loop_state\<lparr>power_on_logged := True\<rparr>" "''356938035643809''"]
    event_state_machine_transitions[of "fix_at_speed (Fin 0)"
      "initial_loop_state\<lparr>power_on_logged := True, in_motion := True\<rparr>" "''356938035643809''"]
  by (simp add: fix_at_speed_fix event_state_machine_def classify_event_def event_codes
        initial_loop_state_def rd_3_2)

theorem no_fix_leaves_state_witness:
  "\<not> valid (initial_gps_data example_now) \<and>
   main_loop_body ''356938035643809'' initial_loop_state (initial_gps_data example_now) =
     Inr (NoFix, initial_loop_state) \<and>
   lat ((initial_gps_data example_now)\<lparr>valid := True\<rparr>) = None \<and>
   main_loop_body ''356938035643809'' (initial_loop_state\<lparr>power_on_logged := True, in_motion := True\<rparr>)
       ((initial_gps_data example_now)\<lparr>valid := True\<rparr>) =
     Inr (NoFix, initial_loop_state\<lparr>power_on_logged := True, in_motion := True\<rparr>)"
  using no_fix_leaves_state[of "initial_gps_data example_now" initial_loop_state
      "''356938035643809''"]
    no_fix_leaves_state[of "(initial_gps_data example_now)\<lparr>valid := True\<rparr>"
      "initial_loop_state\<lparr>power_on_logged := True, in_motion := True\<rparr>" "''356938035643809''"]
  by (simp add: initial_gps_data_def)

section \<open>The window: validity and overwriting\<close>


lemma try_body_decoded:
  assumes "decoded parse raw = Some msg"
  shows "try_body parse g raw = handle_msg msg (snd (gsa_block (read_line raw) g))"
  using decoded_SomeD(1,3)[OF assms] decoded_SomeD(2)[OF assms, of g]
  by (simp add: try_body_def Let_def and_then_None dispatch_def)

lemma and_then_fst_None:
  "fst (and_then r f) = None \<longleftrightarrow> fst r = None \<and> fst (f (snd r)) = None"
  by (cases r; cases "fst r") (auto simp: and_then_def)

lemma handle_rmc_complete:
  assumes "fst (handle_rmc m g) = None"
  shows "handle_rmc m g =
     rmc_posTime m (snd (rmc_speed m (snd (rmc_course m (snd (rmc_position m (snd (rmc_valid m g))))))))"
    "fst (rmc_position m g') = None" "fst (rmc_course m g') = None"
    "fst (rmc_speed m g') = None" "fst (rmc_posTime m g') = None"
proof -
  let ?v = "rmc_valid m g"
  let ?p = "and_then ?v (rmc_position m)"
  let ?c = "and_then ?p (rmc_course m)"
  let ?s = "and_then ?c (rmc_speed m)"
  from assms have 1: "fst ?s = None" "fst (rmc_posTime m (snd ?s)) = None"
    by (simp_all add: handle_rmc_def and_then_fst_None)
  then have 2: "fst ?c = None" "fst (rmc_speed m (snd ?c)) = None"
    by (simp_all add: and_then_fst_None)
  then have 3: "fst ?p = None" "fst (rmc_course m (snd ?p)) = None"
    by (simp_all add: and_then_fst_None)
  then have 4: "fst ?v = None" "fst (rmc_position m (snd ?v)) = None"
    by (simp_all add: and_then_fst_None)
  have p: "?p = rmc_position m (snd ?v)" using 4 by (simp add: and_then_None)
  have c: "?c = rmc_course m (snd ?p)" using 3 by (simp add: and_then_None)
  have s: "?s = rmc_speed m (snd ?c)" using 2 by (simp add: and_then_None)
  have "handle_rmc m g = rmc_posTime m (snd ?s)"
    using 1 by (simp add: handle_rmc_def and_then_None)
  also have "\<dots> = rmc_posTime m (snd (rmc_speed m (snd ?c)))"
    by (simp only: s)
  also have "\<dots> = rmc_posTime m (snd (rmc_speed m (snd (rmc_course m (snd ?p)))))"
    by (simp only: c)
  also have "\<dots> = rmc_posTime m (snd (rmc_speed m (snd (rmc_course m
      (snd (rmc_position m (snd ?v)))))))"
    by (simp only: p)
  finally show "handle_rmc m g =
     rmc_posTime m (snd (rmc_speed m (snd (rmc_course m (snd (rmc_position m (snd (rmc_valid m g))))))))" .
  show "fst (rmc_position m g') = None" using 4(2) stage_exc_indep(2) by metis
  show "fst (rmc_course m g') = None" using 3(2) stage_exc_indep(3) by metis
  show "fst (rmc_speed m g') = None" using 2(2) stage_exc_indep(4) by metis
  show "fst (rmc_posTime m g') = None" using 1(2) stage_exc_indep(5) by metis
qed

lemma stage_values_indep:
  "fst (rmc_course m g) = None \<Longrightarrow> course (snd (rmc_course m g)) = course (snd (rmc_course m g'))"
  "fst (rmc_speed m g) = None \<Longrightarrow> speed_m_s (snd (rmc_speed m g)) = speed_m_s (snd (rmc_speed m g'))"
  "fst (rmc_posTime m g) = None \<Longrightarrow> posTime (snd (rmc_posTime m g)) = posTime (snd (rmc_posTime m g'))"
  by (auto simp: rmc_course_def rmc_speed_def rmc_posTime_def split: sum.splits if_splits)

lemma stages_keep_posTime:
  "posTime (snd (rmc_valid m g)) = posTime g"
  "posTime (snd (rmc_position m g)) = posTime g"
  "posTime (snd (rmc_course m g)) = posTime g"
  "posTime (snd (rmc_speed m g)) = posTime g"
  "posTime (snd (gga_alt a g)) = posTime g"
  "posTime (snd (gga_sats a g)) = posTime g"
  by (simp_all add: stage_defs split: sum.splits)

lemma handle_rmc_overwrites:
  assumes "fst (handle_rmc m g) = None"
  shows "course (snd (handle_rmc m g)) = course (snd (rmc_course m g'))"
    "speed_m_s (snd (handle_rmc m g)) = speed_m_s (snd (rmc_speed m g'))"
    "posTime (snd (handle_rmc m g)) = posTime (snd (rmc_posTime m g'))"
proof -
  note c = handle_rmc_complete[OF assms]
  let ?p = "snd (rmc_position m (snd (rmc_valid m g)))"
  let ?c = "snd (rmc_course m ?p)"
  let ?s = "snd (rmc_speed m ?c)"
  have "course (snd (handle_rmc m g)) = course ?c"
    by (simp add: c(1) stages_keep_course)
  also have "\<dots> = course (snd (rmc_course m g'))"
    by (rule stage_values_indep(1)[OF c(3)])
  finally show "course (snd (handle_rmc m g)) = course (snd (rmc_course m g'))" .
  have "speed_m_s (snd (handle_rmc m g)) = speed_m_s ?s"
    by (simp add: c(1) stages_keep_speed)
  also have "\<dots> = speed_m_s (snd (rmc_speed m g'))"
    by (rule stage_values_indep(2)[OF c(4)])
  finally show "speed_m_s (snd (handle_rmc m g)) = speed_m_s (snd (rmc_speed m g'))" .
  have "posTime (snd (handle_rmc m g)) = posTime (snd (rmc_posTime m ?s))"
    by (simp add: c(1))
  also have "\<dots> = posTime (snd (rmc_posTime m g'))"
    by (rule stage_values_indep(3)[OF c(5)])
  finally show "posTime (snd (handle_rmc m g)) = posTime (snd (rmc_posTime m g'))" .
qed

lemma handle_rmc_exc_indep: "fst (handle_rmc m g) = fst (handle_rmc m g')"
proof -
  have a: "fst (and_then r f) = fst (and_then r' f)"
    if "fst r = fst r'" "\<And>g g'. fst (f g) = fst (f g')" for r r' :: outcome and f
    using that by (cases r; cases r'; cases "fst r") (auto simp: and_then_def)
  show ?thesis
    unfolding handle_rmc_def
    by (intro a) (simp_all add: stage_exc_indep)
qed


lemma loop_iteration_overwrites:
  assumes "decoded parse raw = Some (RMC m)" "fst (try_body parse g0 raw) = None"
  shows "course (loop_iteration parse g raw) = course (loop_iteration parse g' raw)"
    "speed_m_s (loop_iteration parse g raw) = speed_m_s (loop_iteration parse g' raw)"
    "posTime (loop_iteration parse g raw) = posTime (loop_iteration parse g' raw)"
proof -
  let ?line = "read_line raw"
  have "fst (handle_rmc m (snd (gsa_block ?line g0))) = None"
    using assms by (simp add: try_body_decoded handle_msg_def)
  then have n: "fst (handle_rmc m h) = None" for h
    using handle_rmc_exc_indep by metis
  have it: "loop_iteration parse h raw = snd (handle_rmc m (snd (gsa_block ?line h)))" for h
    using assms(1) by (simp add: loop_iteration_decoded handle_msg_def)
  show "course (loop_iteration parse g raw) = course (loop_iteration parse g' raw)"
    by (simp only: it handle_rmc_overwrites(1)[OF n, of _ g0])
  show "speed_m_s (loop_iteration parse g raw) = speed_m_s (loop_iteration parse g' raw)"
    by (simp only: it handle_rmc_overwrites(2)[OF n, of _ g0])
  show "posTime (loop_iteration parse g raw) = posTime (loop_iteration parse g' raw)"
    by (simp only: it handle_rmc_overwrites(3)[OF n, of _ g0])
qed

lemma parse_gps_single:
  "parse_gps now parse [raw] = loop_iteration parse (initial_gps_data now) raw"
  by (simp add: parse_gps_def)

text \<open>
  C3 (amended). The flag \<open>valid\<close> of a window is true exactly when the window holds a
  decoded RMC sentence with status A: a sentence with another status neither sets nor
  clears it, whatever comes before or after. The course, the speed and the fix time are
  those of the last RMC sentence that was handled without an exception.
\<close>

theorem valid_iff_status_A:
  "(valid (parse_gps now parse raws) \<longleftrightarrow>
      (\<exists>raw\<in>set raws. \<exists>m. decoded parse raw = Some (RMC m) \<and> msg_status m = PyStr ''A'')) \<and>
   (decoded parse raw = Some (RMC m) \<and> fst (try_body parse (initial_gps_data now) raw) = None \<longrightarrow>
      course (parse_gps now parse (raws @ [raw])) = course (parse_gps now parse [raw]) \<and>
      speed_m_s (parse_gps now parse (raws @ [raw])) = speed_m_s (parse_gps now parse [raw]) \<and>
      posTime (parse_gps now parse (raws @ [raw])) = posTime (parse_gps now parse [raw]))"
proof (intro conjI impI)
  show "valid (parse_gps now parse raws) \<longleftrightarrow>
      (\<exists>raw\<in>set raws. \<exists>m. decoded parse raw = Some (RMC m) \<and> msg_status m = PyStr ''A'')"
    by (rule parse_gps_valid)
next
  assume a: "decoded parse raw = Some (RMC m) \<and>
    fst (try_body parse (initial_gps_data now) raw) = None"
  note o = loop_iteration_overwrites[OF conjunct1[OF a] conjunct2[OF a],
      of "parse_gps now parse raws" "initial_gps_data now"]
  show "course (parse_gps now parse (raws @ [raw])) = course (parse_gps now parse [raw])"
    by (simp only: parse_gps_snoc parse_gps_single o(1))
  show "speed_m_s (parse_gps now parse (raws @ [raw])) = speed_m_s (parse_gps now parse [raw])"
    by (simp only: parse_gps_snoc parse_gps_single o(2))
  show "posTime (parse_gps now parse (raws @ [raw])) = posTime (parse_gps now parse [raw])"
    by (simp only: parse_gps_snoc parse_gps_single o(3))
qed

lemma parse_gps_two:
  "parse_gps now parse [r1, r2] = loop_iteration parse (loop_iteration parse (initial_gps_data now) r1) r2"
  by (simp add: parse_gps_def)

lemma example_status:
  "msg_status rmc_a = PyStr ''A''" "msg_status rmc_f = PyStr ''F''"
  "msg_status rmc_equator = PyStr ''A''" "msg_status rmc_empty = PyStr ''A''"
  "msg_status rmc_bad_course = PyStr ''A''"
  by (simp_all add: rmc_a_def rmc_f_def rmc_equator_def rmc_empty_def rmc_bad_course_def)

theorem valid_iff_status_A_witness:
  "valid (parse_gps example_now example_parse [RMC_F_LINE @ crlf, RMC_A_LINE @ crlf]) \<and>
   \<not> valid (parse_gps example_now example_parse [RMC_F_LINE @ crlf, GSA_3D_LINE @ crlf]) \<and>
   decoded example_parse (RMC_A_LINE @ crlf) = Some (RMC rmc_a) \<and>
   fst (try_body example_parse (initial_gps_data example_now) (RMC_A_LINE @ crlf)) = None \<and>
   course (parse_gps example_now example_parse ([RMC_EMPTY_LINE @ crlf] @ [RMC_A_LINE @ crlf])) =
     PyFloat float_84_4 \<and>
   speed_m_s (parse_gps example_now example_parse ([RMC_EMPTY_LINE @ crlf] @ [RMC_A_LINE @ crlf])) =
     rd (51 / 10)"
  using valid_iff_status_A[of example_now example_parse "[RMC_F_LINE @ crlf, RMC_A_LINE @ crlf]"
      "RMC_A_LINE @ crlf" rmc_a]
    valid_iff_status_A[of example_now example_parse "[RMC_F_LINE @ crlf, GSA_3D_LINE @ crlf]"
      "RMC_A_LINE @ crlf" rmc_a]
    valid_iff_status_A[of example_now example_parse "[RMC_EMPTY_LINE @ crlf]"
      "RMC_A_LINE @ crlf" rmc_a]
  by (simp add: example_decoded try_body_decoded handle_msg_def example_read_line
        gsa_block_skip example_contains example_handle_rmc parse_gps_single parse_gps_two
        example_iteration example_status)

theorem status_F_keeps_valid_counterexample:
  "decoded example_parse (RMC_F_LINE @ crlf) = Some (RMC rmc_f) \<and>
   msg_status rmc_f = PyStr ''F'' \<and>
   valid (parse_gps example_now example_parse [RMC_A_LINE @ crlf, RMC_F_LINE @ crlf])"
  by (simp add: example_decoded parse_gps_two example_iteration example_handle_rmc
        example_status)

section \<open>Coordinates\<close>


text \<open>
  C1 (amended). In the ConsolidatedFix of every window the latitude and the longitude are
  both present or both absent. When the flag \<open>valid\<close> is true and every decoded RMC
  sentence of the window with status A carries a latitude and a longitude that are both
  non-zero, both are present; \<open>valid\<close> alone does not make them present.
\<close>

theorem fix_position_presence:
  "(lat (parse_gps now parse raws) = None \<longleftrightarrow> lon (parse_gps now parse raws) = None) \<and>
   ((\<forall>raw\<in>set raws. \<forall>m. decoded parse raw = Some (RMC m) \<and> msg_status m = PyStr ''A'' \<longrightarrow>
        (\<exists>la lo. msg_latitude m = Inr la \<and> fl_truthy la \<and>
                 msg_longitude m = Inr lo \<and> fl_truthy lo)) \<and>
    valid (parse_gps now parse raws) \<longrightarrow>
      lat (parse_gps now parse raws) \<noteq> None \<and> lon (parse_gps now parse raws) \<noteq> None)"
proof (intro conjI impI)
  show both: "lat (parse_gps now parse raws) = None \<longleftrightarrow> lon (parse_gps now parse raws) = None"
    using parse_gps_position[of now parse raws] by (rule conjunct1)
  assume a: "(\<forall>raw\<in>set raws. \<forall>m. decoded parse raw = Some (RMC m) \<and> msg_status m = PyStr ''A'' \<longrightarrow>
        (\<exists>la lo. msg_latitude m = Inr la \<and> fl_truthy la \<and>
                 msg_longitude m = Inr lo \<and> fl_truthy lo)) \<and>
    valid (parse_gps now parse raws)"
  then obtain raw m where r: "raw \<in> set raws" "decoded parse raw = Some (RMC m)"
      "msg_status m = PyStr ''A''"
    using parse_gps_valid[of now parse raws] by blast
  with a obtain la lo where "msg_latitude m = Inr la" "fl_truthy la"
      "msg_longitude m = Inr lo" "fl_truthy lo"
    by blast
  with r have "\<exists>raw\<in>set raws. \<exists>m la lo. decoded parse raw = Some (RMC m) \<and>
      msg_latitude m = Inr la \<and> fl_truthy la \<and> msg_longitude m = Inr lo \<and> fl_truthy lo"
    by blast
  then show "lat (parse_gps now parse raws) \<noteq> None"
    using parse_gps_position[of now parse raws] by blast
  then show "lon (parse_gps now parse raws) \<noteq> None"
    using both by simp
qed

lemma example_coordinates:
  "msg_latitude rmc_a = Inr (Fin (385 / 8))" "msg_longitude rmc_a = Inr (Fin (23 / 2))"
  "msg_latitude rmc_equator = Inr (Fin 0)"
  by (simp_all add: rmc_a_def rmc_equator_def)

theorem fix_position_presence_witness:
  "valid (parse_gps example_now example_parse [RMC_A_LINE @ crlf]) \<and>
   lat (parse_gps example_now example_parse [RMC_A_LINE @ crlf]) = Some (Fin (385 / 8)) \<and>
   lon (parse_gps example_now example_parse [RMC_A_LINE @ crlf]) = Some (Fin (23 / 2))"
  using fix_position_presence[of example_now example_parse "[RMC_A_LINE @ crlf]"]
  by (simp add: parse_gps_single example_iteration example_handle_rmc example_decoded
        example_coordinates)

theorem valid_without_position_counterexample:
  "valid (parse_gps example_now example_parse [RMC_EQUATOR_LINE @ crlf]) \<and>
   lat (parse_gps example_now example_parse [RMC_EQUATOR_LINE @ crlf]) = None \<and>
   lon (parse_gps example_now example_parse [RMC_EQUATOR_LINE @ crlf]) = None"
  by (simp add: parse_gps_single example_iteration example_handle_rmc initial_gps_data_def)

lemma main_loop_body_no_position:
  "\<not> opt_truthy (lat gps) \<or> \<not> opt_truthy (lon gps) \<Longrightarrow>
     main_loop_body imei st gps = Inr (NoFix, st)"
  by (auto simp: event_state_machine_def main_loop_body_def)

text \<open>
  C9 (amended). A latitude or longitude of exactly 0.0 counts as absent. An RMC sentence
  with such a coordinate stores neither coordinate and leaves those of the dictionary as
  they were, so coordinates stored earlier in the window stay. A window all of whose RMC
  sentences are such ends without coordinates, and the main loop reports "No fix" on it;
  so it does on every dictionary whose latitude or longitude is 0.0, valid or not.
\<close>

theorem zero_coordinate_is_absent:
  "(parse (read_line raw) = Inr (RMC m) \<and>
      (msg_latitude m = Inr (Fin 0) \<or> msg_longitude m = Inr (Fin 0)) \<longrightarrow>
      lat (loop_iteration parse g raw) = lat g \<and> lon (loop_iteration parse g raw) = lon g) \<and>
   ((\<forall>raw\<in>set raws. \<forall>m. parse (read_line raw) = Inr (RMC m) \<longrightarrow>
        msg_latitude m = Inr (Fin 0) \<or> msg_longitude m = Inr (Fin 0)) \<longrightarrow>
      lat (parse_gps now parse raws) = None \<and> lon (parse_gps now parse raws) = None \<and>
      main_loop_body imei st (parse_gps now parse raws) = Inr (NoFix, st)) \<and>
   (lat gps = Some (Fin 0) \<or> lon gps = Some (Fin 0) \<longrightarrow>
      main_loop_body imei st gps = Inr (NoFix, st))"
proof (intro conjI impI)
  assume a: "parse (read_line raw) = Inr (RMC m) \<and>
      (msg_latitude m = Inr (Fin 0) \<or> msg_longitude m = Inr (Fin 0))"
  have "lat (loop_iteration parse g raw) = lat g \<and> lon (loop_iteration parse g raw) = lon g"
  proof (cases rule: loop_iteration_position_cases[of parse raw g])
    case (stores m' la lo)
    then have "m' = m" using decoded_SomeD(3)[of parse raw "RMC m'"] a by simp
    with stores a show ?thesis by auto
  next
    case keeps
    then show ?thesis by simp
  qed
  then show "lat (loop_iteration parse g raw) = lat g" "lon (loop_iteration parse g raw) = lon g"
    by simp_all
next
  assume a: "\<forall>raw\<in>set raws. \<forall>m. parse (read_line raw) = Inr (RMC m) \<longrightarrow>
        msg_latitude m = Inr (Fin 0) \<or> msg_longitude m = Inr (Fin 0)"
  have "\<not> (\<exists>raw\<in>set raws. \<exists>m la lo. decoded parse raw = Some (RMC m) \<and>
      msg_latitude m = Inr la \<and> fl_truthy la \<and> msg_longitude m = Inr lo \<and> fl_truthy lo)"
  proof
    assume "\<exists>raw\<in>set raws. \<exists>m la lo. decoded parse raw = Some (RMC m) \<and>
      msg_latitude m = Inr la \<and> fl_truthy la \<and> msg_longitude m = Inr lo \<and> fl_truthy lo"
    then obtain raw m la lo where r: "raw \<in> set raws" "decoded parse raw = Some (RMC m)"
      "msg_latitude m = Inr la" "fl_truthy la" "msg_longitude m = Inr lo" "fl_truthy lo"
      by blast
    from r(2) have "parse (read_line raw) = Inr (RMC m)" by (rule decoded_SomeD(3))
    with a r(1) have "msg_latitude m = Inr (Fin 0) \<or> msg_longitude m = Inr (Fin 0)" by blast
    with r show False by auto
  qed
  then show n: "lat (parse_gps now parse raws) = None"
    using parse_gps_position[of now parse raws] by blast
  then show "lon (parse_gps now parse raws) = None"
    using parse_gps_position[of now parse raws] by blast
  from n show "main_loop_body imei st (parse_gps now parse raws) = Inr (NoFix, st)"
    by (simp add: main_loop_body_no_position)
next
  assume "lat gps = Some (Fin 0) \<or> lon gps = Some (Fin 0)"
  then show "main_loop_body imei st gps = Inr (NoFix, st)"
    by (auto simp: main_loop_body_no_position)
qed

theorem zero_coordinate_is_absent_witness:
  "example_parse (read_line (RMC_EQUATOR_LINE @ crlf)) = Inr (RMC rmc_equator) \<and>
   msg_latitude rmc_equator = Inr (Fin 0) \<and>
   lat (loop_iteration example_parse (fix_at_speed (Fin 0)) (RMC_EQUATOR_LINE @ crlf)) =
     Some (Fin (385 / 8)) \<and>
   valid (parse_gps example_now example_parse [RMC_EQUATOR_LINE @ crlf, GSA_3D_LINE @ crlf]) \<and>
   main_loop_body ''356938035643809'' initial_loop_state
     (parse_gps example_now example_parse [RMC_EQUATOR_LINE @ crlf, GSA_3D_LINE @ crlf]) =
     Inr (NoFix, initial_loop_state) \<and>
   main_loop_body ''356938035643809'' initial_loop_state
     ((fix_at_speed (Fin 0))\<lparr>lon := Some (Fin 0)\<rparr>) = Inr (NoFix, initial_loop_state)"
  using zero_coordinate_is_absent[of example_parse "RMC_EQUATOR_LINE @ crlf" rmc_equator
      "fix_at_speed (Fin 0)" "[RMC_EQUATOR_LINE @ crlf, GSA_3D_LINE @ crlf]" example_now
      "''356938035643809''" initial_loop_state "(fix_at_speed (Fin 0))\<lparr>lon := Some (Fin 0)\<rparr>"]
  by (simp add: example_read_line example_parse_values example_coordinates fix_at_speed_def
        initial_gps_data_def parse_gps_two example_iteration example_handle_rmc)

section \<open>Course, speed and altitude\<close>


lemma rmc_position_ok:
  "msg_latitude m = Inr la \<Longrightarrow> msg_longitude m = Inr lo \<Longrightarrow> fst (rmc_position m g) = None"
  by (simp add: rmc_position_def)

lemma handle_rmc_reaches_course:
  assumes "msg_latitude m = Inr la" "msg_longitude m = Inr lo"
  shows "handle_rmc m g =
     and_then (and_then (rmc_course m (snd (rmc_position m (snd (rmc_valid m g)))))
       (rmc_speed m)) (rmc_posTime m)"
  unfolding handle_rmc_def
  by (simp add: and_then_None stage_exc_indep(1) rmc_position_ok[OF assms])


lemma handle_rmc_speed_value:
  assumes "msg_latitude m = Inr la" "msg_longitude m = Inr lo" "fst (rmc_course m g) = None"
  shows "speed_m_s (snd (handle_rmc m g)) = speed_m_s (snd (rmc_speed m g))"
proof -
  let ?p = "snd (rmc_position m (snd (rmc_valid m g)))"
  have c: "fst (rmc_course m ?p) = None"
    using assms(3) stage_exc_indep(3) by metis
  have "speed_m_s (snd (handle_rmc m g)) = speed_m_s (snd (rmc_speed m (snd (rmc_course m ?p))))"
    by (simp add: handle_rmc_reaches_course[OF assms(1,2)] and_then_None[OF c]
          and_then_keeps[where sel=speed_m_s] stages_keep_speed)
  also have "\<dots> = speed_m_s (snd (rmc_speed m g))"
    by (simp add: rmc_speed_def stages_keep_speed split: sum.splits)
  finally show ?thesis .
qed

lemma rmc_speed_float:
  "msg_spd_over_grnd m = PyFloat k \<Longrightarrow>
     rmc_speed m g = (None, g\<lparr>speed_m_s := py_round1 (fl_mul k KNOTS_TO_M_S)\<rparr>)"
  by (cases k) (simp_all add: rmc_speed_def)



lemma loop_iteration_rmc:
  "decoded parse raw = Some (RMC m) \<Longrightarrow>
     loop_iteration parse g raw = snd (handle_rmc m (snd (gsa_block (read_line raw) g)))"
  by (simp add: loop_iteration_decoded handle_msg_def)

text \<open>
  C7. When an RMC sentence is handled as far as line 75 and its speed over ground is the
  float \<open>k\<close>, the speed of the dictionary becomes \<open>k\<close> times the float 0.514444, rounded
  to one decimal. For 10.0 knots that is the float 5.1.
\<close>

theorem speed_conversion:
  "(decoded parse raw = Some (RMC m) \<and> msg_latitude m = Inr la \<and> msg_longitude m = Inr lo \<and>
    (truthy (msg_true_course m) \<longrightarrow> (\<exists>c. py_float (msg_true_course m) = Inr c)) \<and>
    msg_spd_over_grnd m = PyFloat k \<longrightarrow>
      speed_m_s (loop_iteration parse g raw) = py_round1 (fl_mul k (rd (514444 / 1000000)))) \<and>
   py_round1 (fl_mul (Fin 10) (rd (514444 / 1000000))) = rd (51 / 10)"
proof (intro conjI impI)
  assume a: "decoded parse raw = Some (RMC m) \<and> msg_latitude m = Inr la \<and>
    msg_longitude m = Inr lo \<and>
    (truthy (msg_true_course m) \<longrightarrow> (\<exists>c. py_float (msg_true_course m) = Inr c)) \<and>
    msg_spd_over_grnd m = PyFloat k"
  let ?g = "snd (gsa_block (read_line raw) g)"
  have c: "fst (rmc_course m ?g) = None"
    using a by (auto simp: rmc_course_def)
  have "speed_m_s (loop_iteration parse g raw) = speed_m_s (snd (rmc_speed m ?g))"
    using a by (simp add: loop_iteration_rmc handle_rmc_speed_value[OF _ _ c])
  also have "\<dots> = py_round1 (fl_mul k KNOTS_TO_M_S)"
    using a by (simp add: rmc_speed_float)
  finally show "speed_m_s (loop_iteration parse g raw) =
      py_round1 (fl_mul k (rd (514444 / 1000000)))"
    by (simp only: KNOTS_TO_M_S_def)
next
  show "py_round1 (fl_mul (Fin 10) (rd (514444 / 1000000))) = rd (51 / 10)"
    using example_numbers(2) by (simp only: KNOTS_TO_M_S_def)
qed

lemma example_fields:
  "msg_true_course rmc_a = PyFloat float_84_4" "msg_spd_over_grnd rmc_a = PyFloat (Fin 10)"
  "msg_true_course rmc_empty = PyNone" "msg_spd_over_grnd rmc_empty = PyNone"
  "msg_latitude rmc_empty = Inr (Fin (385 / 8))" "msg_longitude rmc_empty = Inr (Fin (23 / 2))"
  "msg_altitude gga_no_alt = PyNone"
  by (simp_all add: rmc_a_def rmc_empty_def gga_no_alt_def)

theorem speed_conversion_witness:
  "decoded example_parse (RMC_A_LINE @ crlf) = Some (RMC rmc_a) \<and>
   msg_spd_over_grnd rmc_a = PyFloat (Fin 10) \<and>
   speed_m_s (loop_iteration example_parse (initial_gps_data example_now) (RMC_A_LINE @ crlf)) =
     rd (51 / 10)"
  using speed_conversion[of example_parse "RMC_A_LINE @ crlf" rmc_a "Fin (385 / 8)" "Fin (23 / 2)"
      "Fin 10" "initial_gps_data example_now"]
  by (simp add: example_decoded example_coordinates example_fields)






lemma handle_gga_keeps_course_speed:
  "course (snd (handle_gga a g)) = course g" "speed_m_s (snd (handle_gga a g)) = speed_m_s g"
  unfolding handle_gga_def
  by (simp_all add: and_then_keeps[where sel=course] and_then_keeps[where sel=speed_m_s]
        stages_keep_course stages_keep_speed)


lemma loop_iteration_keeps_course_speed:
  assumes "\<forall>m. decoded parse raw \<noteq> Some (RMC m)"
  shows "course (loop_iteration parse g raw) = course g"
    "speed_m_s (loop_iteration parse g raw) = speed_m_s g"
proof -
  have "course (loop_iteration parse g raw) = course g \<and>
      speed_m_s (loop_iteration parse g raw) = speed_m_s g"
  proof (cases "decoded parse raw")
    case None
    then show ?thesis by (simp add: loop_iteration_undecoded_keeps)
  next
    case (Some msg)
    with assms show ?thesis
      by (cases msg)
        (simp_all add: loop_iteration_decoded handle_msg_def handle_gga_keeps_course_speed
           gsa_block_keeps)
  qed
  then show "course (loop_iteration parse g raw) = course g"
    "speed_m_s (loop_iteration parse g raw) = speed_m_s g"
    by simp_all
qed








section \<open>The feature record\<close>


lemma py_round1_zero: "py_round1 (Fin 0) = Fin 0"
  by (simp add: rd_def round_half_even_def)

lemma rmc_course_cases:
  "course (snd (rmc_course m g)) = course g \<or> course (snd (rmc_course m g)) = PyInt 0 \<or>
   (\<exists>x. course (snd (rmc_course m g)) = PyFloat (py_round1 x))"
  by (auto simp: rmc_course_def split: sum.splits)

lemma rmc_speed_cases:
  "speed_m_s (snd (rmc_speed m g)) = speed_m_s g \<or>
   (\<exists>x. speed_m_s (snd (rmc_speed m g)) = py_round1 x)"
  by (auto simp: rmc_speed_def split: sum.splits)

lemma and_then_snd_cases:
  "snd (and_then r f) = snd r \<or> snd (and_then r f) = snd (f (snd r))"
  by (cases r; cases "fst r") (auto simp: and_then_def)

lemma handle_rmc_one_decimal:
  assumes "course g = PyInt 0 \<or> (\<exists>x. course g = PyFloat (py_round1 x))"
    "\<exists>x. speed_m_s g = py_round1 x"
  shows "course (snd (handle_rmc m g)) = PyInt 0 \<or>
      (\<exists>x. course (snd (handle_rmc m g)) = PyFloat (py_round1 x))"
    "\<exists>x. speed_m_s (snd (handle_rmc m g)) = py_round1 x"
proof -
  let ?p = "and_then (rmc_valid m g) (rmc_position m)"
  let ?c = "and_then ?p (rmc_course m)"
  let ?s = "and_then ?c (rmc_speed m)"
  have p: "course (snd ?p) = course g" "speed_m_s (snd ?p) = speed_m_s g"
    by (simp_all add: and_then_keeps[where sel=course] and_then_keeps[where sel=speed_m_s]
          stages_keep_course stages_keep_speed rmc_valid_def)
  have "course (snd (handle_rmc m g)) = course (snd ?c)"
    unfolding handle_rmc_def
    by (simp add: and_then_keeps[where sel=course] stages_keep_course)
  moreover have "course (snd ?c) = course (snd ?p) \<or> course (snd ?c) = PyInt 0 \<or>
      (\<exists>x. course (snd ?c) = PyFloat (py_round1 x))"
    using and_then_snd_cases[of ?p "rmc_course m"] rmc_course_cases[of m "snd ?p"] by metis
  ultimately show "course (snd (handle_rmc m g)) = PyInt 0 \<or>
      (\<exists>x. course (snd (handle_rmc m g)) = PyFloat (py_round1 x))"
    using assms(1) p(1) by auto
  have "speed_m_s (snd (handle_rmc m g)) = speed_m_s (snd ?s)"
    unfolding handle_rmc_def
    by (simp add: and_then_keeps[where sel=speed_m_s] stages_keep_speed)
  moreover have "speed_m_s (snd ?s) = speed_m_s (snd ?c) \<or>
      (\<exists>x. speed_m_s (snd ?s) = py_round1 x)"
    using and_then_snd_cases[of ?c "rmc_speed m"] rmc_speed_cases[of m "snd ?c"] by metis
  moreover have "speed_m_s (snd ?c) = speed_m_s (snd ?p)"
    by (simp add: and_then_keeps[where sel=speed_m_s] stages_keep_speed)
  ultimately show "\<exists>x. speed_m_s (snd (handle_rmc m g)) = py_round1 x"
    using assms(2) p(2) by auto
qed

lemma loop_iteration_one_decimal:
  assumes "course g = PyInt 0 \<or> (\<exists>x. course g = PyFloat (py_round1 x))"
    "\<exists>x. speed_m_s g = py_round1 x"
  shows "(course (loop_iteration parse g raw) = PyInt 0 \<or>
      (\<exists>x. course (loop_iteration parse g raw) = PyFloat (py_round1 x))) \<and>
    (\<exists>x. speed_m_s (loop_iteration parse g raw) = py_round1 x)"
proof (cases "\<exists>m. decoded parse raw = Some (RMC m)")
  case False
  then show ?thesis using assms by (simp add: loop_iteration_keeps_course_speed)
next
  case True
  then obtain m where m: "decoded parse raw = Some (RMC m)" by blast
  let ?g = "snd (gsa_block (read_line raw) g)"
  have "course ?g = PyInt 0 \<or> (\<exists>x. course ?g = PyFloat (py_round1 x))"
    "\<exists>x. speed_m_s ?g = py_round1 x"
    using assms by (simp_all add: gsa_block_keeps)
  from handle_rmc_one_decimal[OF this, of m] show ?thesis
    by (simp add: loop_iteration_rmc[OF m])
qed

lemma parse_gps_one_decimal:
  "(course (parse_gps now parse raws) = PyInt 0 \<or>
      (\<exists>x. course (parse_gps now parse raws) = PyFloat (py_round1 x))) \<and>
   (\<exists>x. speed_m_s (parse_gps now parse raws) = py_round1 x)"
proof (induction raws rule: rev_induct)
  case Nil
  have "speed_m_s (initial_gps_data now) = py_round1 (Fin 0)"
    by (simp add: initial_gps_data_def py_round1_zero del: py_round1.simps)
  moreover have "course (initial_gps_data now) = PyInt 0"
    by (simp add: initial_gps_data_def)
  ultimately show ?case
    unfolding parse_gps_Nil by blast
next
  case (snoc raw raws)
  then show ?case
    using loop_iteration_one_decimal[of "parse_gps now parse raws" parse raw]
    by (simp add: parse_gps_snoc)
qed

lemma create_aff_feature_fields:
  assumes "create_aff_feature gps imei code etype extra = Inr f"
  shows "coordinates f = [lon gps, lat gps, alt gps]"
    "py_int (course gps) = Inr (cog f)" "fl_to_int (speed_m_s gps) = Inr (spd f)"
  using assms by (auto simp: create_aff_feature_def split: sum.splits)

lemma fl_to_int_Inr: "fl_to_int v = Inr n \<Longrightarrow> \<exists>r. v = Fin r \<and> n = trunc0 r"
  by (cases v) simp_all

text \<open>
  C8. A feature built by \<open>create_aff_feature\<close> has the coordinates longitude, latitude,
  altitude, in this order, and its \<open>cog\<close> and \<open>spd\<close> are \<open>int\<close> of the course and
  the speed of the dictionary. On a dictionary that \<open>parse_gps\<close> returned, the speed is
  a float rounded to one decimal and \<open>spd\<close> is its truncation toward zero; the course
  is the integer 0, or a float rounded to one decimal with \<open>cog\<close> its truncation.
\<close>

theorem feature_course_speed_coordinates:
  "(create_aff_feature gps imei code etype extra = Inr f \<longrightarrow>
      coordinates f = [lon gps, lat gps, alt gps] \<and>
      py_int (course gps) = Inr (cog f) \<and> fl_to_int (speed_m_s gps) = Inr (spd f)) \<and>
   (create_aff_feature (parse_gps now parse raws) imei code etype extra = Inr f' \<longrightarrow>
      (\<exists>s x. speed_m_s (parse_gps now parse raws) = Fin s \<and> py_round1 x = Fin s \<and>
             spd f' = trunc0 s) \<and>
      (course (parse_gps now parse raws) = PyInt 0 \<and> cog f' = 0 \<or>
       (\<exists>c x. course (parse_gps now parse raws) = PyFloat (Fin c) \<and> py_round1 x = Fin c \<and>
              cog f' = trunc0 c)))"
proof (intro conjI impI)
  assume "create_aff_feature gps imei code etype extra = Inr f"
  then show "coordinates f = [lon gps, lat gps, alt gps]"
    "py_int (course gps) = Inr (cog f)" "fl_to_int (speed_m_s gps) = Inr (spd f)"
    by (rule create_aff_feature_fields)+
next
  let ?g = "parse_gps now parse raws"
  assume a: "create_aff_feature ?g imei code etype extra = Inr f'"
  note f = create_aff_feature_fields[OF a]
  note inv = parse_gps_one_decimal[of now parse raws]
  from inv obtain x where x: "speed_m_s ?g = py_round1 x" by blast
  from fl_to_int_Inr[OF f(3)] obtain s where s: "speed_m_s ?g = Fin s" "spd f' = trunc0 s"
    by blast
  with x show "\<exists>s x. speed_m_s ?g = Fin s \<and> py_round1 x = Fin s \<and> spd f' = trunc0 s"
    by metis
  from inv consider (zero) "course ?g = PyInt 0"
    | (float) y where "course ?g = PyFloat (py_round1 y)"
    by blast
  then show "course ?g = PyInt 0 \<and> cog f' = 0 \<or>
       (\<exists>c x. course ?g = PyFloat (Fin c) \<and> py_round1 x = Fin c \<and> cog f' = trunc0 c)"
  proof cases
    case zero
    with f(2) show ?thesis by simp
  next
    case float
    with f(2) have "fl_to_int (py_round1 y) = Inr (cog f')" by simp
    from fl_to_int_Inr[OF this] obtain c where "py_round1 y = Fin c" "cog f' = trunc0 c"
      by blast
    with float show ?thesis by metis
  qed
qed

lemma parse_gps_three:
  "parse_gps now parse [r1, r2, r3] =
     loop_iteration parse (loop_iteration parse (loop_iteration parse (initial_gps_data now) r1) r2) r3"
  by (simp add: parse_gps_def)

theorem feature_course_speed_coordinates_witness:
  "map_sum id (\<lambda>f. (cog f, spd f, coordinates f))
     (create_aff_feature
        (parse_gps example_now example_parse
           [RMC_A_LINE @ crlf, GGA_NO_ALT_LINE @ crlf, GSA_3D_LINE @ crlf])
        ''356938035643809'' 1 ''POWER ON'' []) =
   Inr (84, 5, [Some (Fin (23 / 2)), Some (Fin (385 / 8)), Some (Fin 0)])"
proof -
  let ?G = "parse_gps example_now example_parse
     [RMC_A_LINE @ crlf, GGA_NO_ALT_LINE @ crlf, GSA_3D_LINE @ crlf]"
  have G: "?G = (initial_gps_data example_now)
      \<lparr>valid := True, lat := Some (Fin (385 / 8)), lon := Some (Fin (23 / 2)),
       course := PyFloat float_84_4, speed_m_s := rd (51 / 10),
       posTime := Some ''1994-03-23T12:35:19Z'', alt := Some (Fin 0), sats := Some 8,
       pdop := Some (Fin (5 / 2)), fix_type := ''3D''\<rparr>"
    by (simp add: parse_gps_three example_iteration example_handle_rmc example_handle_gga)
  have "fl_to_int float_84_4 = Inr 84"
    by code_simp
  then have c: "py_int (course ?G) = Inr 84" "fl_to_int (speed_m_s ?G) = Inr 5"
    "lon ?G = Some (Fin (23 / 2))" "lat ?G = Some (Fin (385 / 8))" "alt ?G = Some (Fin 0)"
    by (simp_all add: G example_numbers(7))
  obtain f where f: "create_aff_feature ?G ''356938035643809'' 1 ''POWER ON'' [] = Inr f"
    using create_aff_feature_total[OF c(1,2)] by blast
  from feature_course_speed_coordinates[of ?G "''356938035643809''" 1 "''POWER ON''" "[]" f]
  have "coordinates f = [lon ?G, lat ?G, alt ?G] \<and>
      py_int (course ?G) = Inr (cog f) \<and> fl_to_int (speed_m_s ?G) = Inr (spd f)"
    using f by blast
  then have "cog f = 84" "spd f = 5"
    "coordinates f = [Some (Fin (23 / 2)), Some (Fin (385 / 8)), Some (Fin 0)]"
    by (simp_all only: c sum.inject list.inject simp_thms)
  then show ?thesis
    by (simp only: f map_sum.simps prod.inject simp_thms)
qed

section \<open>Malformed lines and the dilution sentence\<close>


lemma dispatch_keeps_dop:
  "pdop (snd (dispatch parse line g)) = pdop g"
  "fix_type (snd (dispatch parse line g)) = fix_type g"
  by (cases "parse line"; simp add: dispatch_def handle_msg_keeps_dop)+


lemma loop_iteration_gsa_raises:
  assumes "startswith (read_line raw) ''$''" "gsa_block (read_line raw) g = (Some e, g)"
  shows "try_body parse g raw = (Some e, g)" "loop_iteration parse g raw = g"
  using assms by (simp_all add: loop_iteration_def try_body_def and_then_def)

lemma loop_iteration_dop:
  assumes "startswith (read_line raw) ''$''" "gsa_block (read_line raw) g = (None, g1)"
  shows "pdop (loop_iteration parse g raw) = pdop g1"
    "fix_type (loop_iteration parse g raw) = fix_type g1"
  using assms by (simp_all add: loop_iteration_def try_body_def and_then_def dispatch_keeps_dop)



text \<open>
  C10 (amended). Take any line that starts with \<open>$\<close>, contains \<open>GSA\<close> anywhere and
  splits into at least 16 comma-delimited fields, whatever pynmea2 makes of it afterwards.
  If field 15 is empty, the positional dilution becomes null; if field 15 is a float
  literal, the dilution becomes that float; in both cases the fix dimensionality becomes
  2D or 3D when field 2 is \<open>2\<close> or \<open>3\<close> and is kept otherwise. If field 15 is neither
  empty nor a float literal, the line changes nothing at all.
\<close>

theorem gsa_substring_updates:
  "startswith (read_line raw) ''$'' \<and> contains (read_line raw) ''GSA'' \<and>
   16 \<le> length (split_on CHR '','' (read_line raw)) \<longrightarrow>
     (split_on CHR '','' (read_line raw) ! 15 = [] \<longrightarrow>
        pdop (loop_iteration parse g raw) = None \<and>
        fix_type (loop_iteration parse g raw) =
          (if split_on CHR '','' (read_line raw) ! 2 = ''2'' then ''2D''
           else if split_on CHR '','' (read_line raw) ! 2 = ''3'' then ''3D'' else fix_type g)) \<and>
     (\<forall>v. split_on CHR '','' (read_line raw) ! 15 \<noteq> [] \<and>
          py_float_of_str (split_on CHR '','' (read_line raw) ! 15) = Inr v \<longrightarrow>
        pdop (loop_iteration parse g raw) = Some v \<and>
        fix_type (loop_iteration parse g raw) =
          (if split_on CHR '','' (read_line raw) ! 2 = ''2'' then ''2D''
           else if split_on CHR '','' (read_line raw) ! 2 = ''3'' then ''3D'' else fix_type g)) \<and>
     (\<forall>e. split_on CHR '','' (read_line raw) ! 15 \<noteq> [] \<and>
          py_float_of_str (split_on CHR '','' (read_line raw) ! 15) = Inl e \<longrightarrow>
        loop_iteration parse g raw = g)"
proof (intro impI conjI allI)
  let ?line = "read_line raw"
  let ?parts = "split_on CHR '','' ?line"
  let ?ft = "if ?parts ! 2 = ''2'' then ''2D'' else if ?parts ! 2 = ''3'' then ''3D'' else fix_type g"
  assume a: "startswith ?line ''$'' \<and> contains ?line ''GSA'' \<and> 16 \<le> length ?parts"
  {
    assume e: "?parts ! 15 = []"
    have "gsa_block ?line g = (None, g\<lparr>pdop := None, fix_type := ?ft\<rparr>)"
      using a e by (intro gsa_block_updates) simp_all
    from loop_iteration_dop[OF conjunct1[OF a] this, of parse]
    show "pdop (loop_iteration parse g raw) = None"
      "fix_type (loop_iteration parse g raw) = ?ft"
      by simp_all
  next
    fix v
    assume v: "?parts ! 15 \<noteq> [] \<and> py_float_of_str (?parts ! 15) = Inr v"
    have "gsa_block ?line g = (None, g\<lparr>pdop := Some v, fix_type := ?ft\<rparr>)"
      using a v by (intro gsa_block_updates[where v=v]) simp_all
    from loop_iteration_dop[OF conjunct1[OF a] this, of parse]
    show "pdop (loop_iteration parse g raw) = Some v"
      "fix_type (loop_iteration parse g raw) = ?ft"
      by simp_all
  next
    fix e
    assume e: "?parts ! 15 \<noteq> [] \<and> py_float_of_str (?parts ! 15) = Inl e"
    have "gsa_block ?line g = (Some e, g)"
      using a e by (intro gsa_block_raises) simp_all
    from loop_iteration_gsa_raises(2)[OF conjunct1[OF a] this]
    show "loop_iteration parse g raw = g" .
  }
qed


theorem gsa_substring_updates_witness:
  "startswith (read_line (GSA_3D_LINE @ crlf)) ''$'' \<and>
   contains (read_line (GSA_3D_LINE @ crlf)) ''GSA'' \<and>
   length (split_on CHR '','' (read_line (GSA_3D_LINE @ crlf))) = 18 \<and>
   split_on CHR '','' (read_line (GSA_3D_LINE @ crlf)) ! 15 = ''2.5'' \<and>
   py_float_of_str ''2.5'' = Inr (Fin (5 / 2)) \<and>
   pdop (loop_iteration example_parse (initial_gps_data example_now) (GSA_3D_LINE @ crlf)) =
     Some (Fin (5 / 2)) \<and>
   fix_type (loop_iteration example_parse (initial_gps_data example_now) (GSA_3D_LINE @ crlf)) =
     ''3D'' \<and>
   split_on CHR '','' (read_line (GSA_NO_FIX_LINE @ crlf)) ! 15 = [] \<and>
   pdop (loop_iteration example_parse
          ((initial_gps_data example_now)\<lparr>pdop := Some (Fin (5 / 2)), fix_type := ''3D''\<rparr>)
          (GSA_NO_FIX_LINE @ crlf)) = None \<and>
   fix_type (loop_iteration example_parse
          ((initial_gps_data example_now)\<lparr>pdop := Some (Fin (5 / 2)), fix_type := ''3D''\<rparr>)
          (GSA_NO_FIX_LINE @ crlf)) = ''3D''"
  using gsa_substring_updates[of "GSA_3D_LINE @ crlf" example_parse "initial_gps_data example_now"]
    gsa_substring_updates[of "GSA_NO_FIX_LINE @ crlf" example_parse
      "(initial_gps_data example_now)\<lparr>pdop := Some (Fin (5 / 2)), fix_type := ''3D''\<rparr>"]
  by (simp add: example_read_line example_startswith example_contains example_split
        example_floats)

theorem gsa_non_numeric_dilution_counterexample:
  "startswith (read_line (GSA_CUT_LINE @ crlf)) ''$'' \<and>
   contains (read_line (GSA_CUT_LINE @ crlf)) ''GSA'' \<and>
   length (split_on CHR '','' (read_line (GSA_CUT_LINE @ crlf))) = 16 \<and>
   split_on CHR '','' (read_line (GSA_CUT_LINE @ crlf)) ! 2 = ''3'' \<and>
   split_on CHR '','' (read_line (GSA_CUT_LINE @ crlf)) ! 15 = ''2.5*38'' \<and>
   fst (try_body example_parse (initial_gps_data example_now) (GSA_CUT_LINE @ crlf)) =
     Some ValueError \<and>
   fix_type (loop_iteration example_parse (initial_gps_data example_now) (GSA_CUT_LINE @ crlf)) =
     ''Invalid'' \<and>
   pdop (loop_iteration example_parse (initial_gps_data example_now) (GSA_CUT_LINE @ crlf)) = None"
  by (simp add: example_read_line example_startswith example_contains example_split
        loop_iteration_gsa_raises example_gsa_block initial_gps_data_def)





text \<open>
  A window that stored a position before the sentence with the zero coordinate: the
  earlier coordinates are kept and the fix is logged.
\<close>

theorem zero_coordinate_after_position_counterexample:
  "example_parse (read_line (RMC_EQUATOR_LINE @ crlf)) = Inr (RMC rmc_equator) \<and>
   msg_latitude rmc_equator = Inr (Fin 0) \<and>
   valid (parse_gps example_now example_parse [RMC_A_LINE @ crlf, RMC_EQUATOR_LINE @ crlf]) \<and>
   lat (parse_gps example_now example_parse [RMC_A_LINE @ crlf, RMC_EQUATOR_LINE @ crlf]) =
     Some (Fin (385 / 8)) \<and>
   lon (parse_gps example_now example_parse [RMC_A_LINE @ crlf, RMC_EQUATOR_LINE @ crlf]) =
     Some (Fin (23 / 2)) \<and>
   map_sum id (emitted \<circ> fst)
     (main_loop_body ''356938035643809'' initial_loop_state
        (parse_gps example_now example_parse [RMC_A_LINE @ crlf, RMC_EQUATOR_LINE @ crlf])) =
     Inr (Some (''POWER ON'', 1))"
proof -
  let ?G = "parse_gps example_now example_parse [RMC_A_LINE @ crlf, RMC_EQUATOR_LINE @ crlf]"
  have G: "valid ?G" "lat ?G = Some (Fin (385 / 8))" "lon ?G = Some (Fin (23 / 2))"
    "course ?G = PyFloat float_84_4" "speed_m_s ?G = rd (51 / 10)"
    by (simp_all add: parse_gps_two example_iteration example_handle_rmc)
  have t: "opt_truthy (lat ?G)" "opt_truthy (lon ?G)"
    by (simp_all add: G)
  have c: "py_int (course ?G) = Inr 84" "fl_to_int (speed_m_s ?G) = Inr 5"
    using example_numbers(6,7) by (simp_all only: G)
  obtain out st' where o: "main_loop_body ''356938035643809'' initial_loop_state ?G = Inr (out, st')"
    "emitted out = Some (fst (classify_event initial_loop_state ?G),
       the (map_of EVENT_CODES (fst (classify_event initial_loop_state ?G))))"
    by (rule main_loop_body_step[OF G(1) t c, where imei="''356938035643809''"
          and st=initial_loop_state])
  have "emitted out = Some (''POWER ON'', 1)"
    by (simp add: o(2) classify_event_def initial_loop_state_def event_codes)
  then show ?thesis
    by (simp add: o(1) G example_read_line example_parse_values example_coordinates)
qed

end
